theory Spec2Isabelle
  imports Main "HOL-Library.Word"
begin

section \<open>Domain model (package domain)\<close>

text \<open>
  Go's \<open>int\<close> and \<open>int64\<close> are 64-bit machine integers: a \<open>64 word\<close>, read signed
  with \<open>sint\<close>. The conversion \<open>uint(x)\<close> keeps the bits, so it is the identity on
  the word. \<open>ProcessingStatus\<close> and \<open>ImageFormat\<close> are string types with named
  constants; a value read from the database or from a queue message can be any string.
  \<open>time.Time\<close> is a point on a discrete clock.
\<close>

type_synonym go_int = "64 word"
type_synonym ProcessingStatus = string
type_synonym ImageFormat = string
type_synonym time = nat

definition StatusPending :: ProcessingStatus where "StatusPending = ''pending''"
definition StatusProcessing :: ProcessingStatus where "StatusProcessing = ''processing''"
definition StatusCompleted :: ProcessingStatus where "StatusCompleted = ''completed''"
definition StatusFailed :: ProcessingStatus where "StatusFailed = ''failed''"

definition FormatJPEG :: ImageFormat where "FormatJPEG = ''jpeg''"
definition FormatPNG :: ImageFormat where "FormatPNG = ''png''"
definition FormatGIF :: ImageFormat where "FormatGIF = ''gif''"

record Image =
  ID :: string
  OriginalPath :: string
  ProcessedPath :: string
  ThumbnailPath :: string
  Status :: ProcessingStatus
  Format :: ImageFormat
  OriginalWidth :: go_int
  OriginalHeight :: go_int
  ProcessedWidth :: go_int
  ProcessedHeight :: go_int
  CreatedAt :: time
  UpdatedAt :: time

record ProcessingTask =
  ImageID :: string
  ImagePath :: string
  TaskFormat :: ImageFormat
  Width :: go_int
  Height :: go_int

text \<open>
  Errors are values. The four sentinels of package domain, an error raised by an
  external system (database driver, file system, broker, codec) with its text,
  \<open>fmt.Errorf\<close> without and with a wrapped cause (\<open>%w\<close>), and the context's
  cancellation error.
\<close>

datatype error =
    ErrInvalidImageID
  | ErrInvalidImagePath
  | ErrImageNotFound
  | ErrInvalidFormat
  | External string
  | Errorf string
  | Wrap string error
  | Canceled

text \<open>What an external call does this time: it goes through, or it fails with a text.\<close>

datatype outcome = Succeeds | Fails string

definition Validate :: "Image \<Rightarrow> error option" where
  "Validate i =
     (if ID i = [] then Some ErrInvalidImageID
      else if OriginalPath i = [] then Some ErrInvalidImagePath
      else None)"

section \<open>Image registry (imageRepo, table images)\<close>

text \<open>
  The table \<open>images\<close> is the list of its rows, in the order they were inserted; the
  column \<open>id\<close> is the primary key. Every operation is one SQL statement; the first
  argument says whether the statement reaches the database and is executed.
\<close>

type_synonym registry = "Image list"

definition row_of :: "string \<Rightarrow> registry \<Rightarrow> Image option" where
  "row_of i reg = find (\<lambda>row. ID row = i) reg"

text \<open>INSERT of all twelve columns; the primary key rejects a second row with the id.\<close>

definition Create :: "outcome \<Rightarrow> Image \<Rightarrow> registry \<Rightarrow> error option \<times> registry" where
  "Create io img reg =
     (case io of
        Fails e \<Rightarrow> (Some (Wrap ''failed to create image'' (External e)), reg)
      | Succeeds \<Rightarrow>
          (case row_of (ID img) reg of
             Some row \<Rightarrow> (Some (Wrap ''failed to create image'' (External ''duplicate key'')), reg)
           | None \<Rightarrow> (None, reg @ [img])))"

text \<open>SELECT ... WHERE id = $1; no row is \<open>ErrImageNotFound\<close>.\<close>

definition GetByID :: "outcome \<Rightarrow> string \<Rightarrow> registry \<Rightarrow> error + Image" where
  "GetByID io i reg =
     (case io of
        Fails e \<Rightarrow> Inl (Wrap ''failed to get image'' (External e))
      | Succeeds \<Rightarrow> (case row_of i reg of None \<Rightarrow> Inl ErrImageNotFound | Some row \<Rightarrow> Inr row))"

text \<open>
  UPDATE images SET processed_path, thumbnail_path, status, processed_width,
  processed_height, updated_at WHERE id = $1. A statement that matches no row
  succeeds and changes nothing.
\<close>

definition Update :: "outcome \<Rightarrow> Image \<Rightarrow> registry \<Rightarrow> error option \<times> registry" where
  "Update io img reg =
     (case io of
        Fails e \<Rightarrow> (Some (Wrap ''failed to update image'' (External e)), reg)
      | Succeeds \<Rightarrow>
          (None,
           map (\<lambda>row. if ID row = ID img
                       then row\<lparr>ProcessedPath := ProcessedPath img,
                                ThumbnailPath := ThumbnailPath img,
                                Status := Status img,
                                ProcessedWidth := ProcessedWidth img,
                                ProcessedHeight := ProcessedHeight img,
                                UpdatedAt := UpdatedAt img\<rparr>
                       else row) reg))"

text \<open>The columns fixed when the row is inserted.\<close>

definition ingestion_fields ::
  "Image \<Rightarrow> string \<times> string \<times> ImageFormat \<times> go_int \<times> go_int \<times> time" where
  "ingestion_fields r =
     (ID r, OriginalPath r, Format r, OriginalWidth r, OriginalHeight r, CreatedAt r)"

section \<open>Paths and strings (path/filepath, strings)\<close>

text \<open>
  \<open>filepath.Ext\<close>: the suffix beginning at the final dot in the final element of the
  path, empty if there is no dot. The scan runs from the end of the string and stops
  at a separator.
\<close>

fun ext_scan :: "string \<Rightarrow> string \<Rightarrow> string" where
  "ext_scan [] acc = []"
| "ext_scan (c # cs) acc =
     (if c = CHR ''/'' then []
      else if c = CHR ''.'' then c # acc
      else ext_scan cs (c # acc))"

definition Ext :: "string \<Rightarrow> string" where
  "Ext path = ext_scan (rev path) []"

text \<open>
  \<open>strings.ToLower\<close>. A string is a list of bytes. A string of ASCII bytes only is
  lower-cased byte by byte. Any other string goes through
  \<open>strings.Map(unicode.ToLower, s)\<close>: it is read rune by rune as UTF-8, a byte that
  starts no valid encoding being read as the rune U+FFFD of width 1
  (\<open>utf8.DecodeRuneInString\<close>), each rune is mapped by \<open>unicode.ToLower\<close>, and the
  results are written out in UTF-8 (\<open>utf8.AppendRune\<close>). \<open>unicode.ToLower\<close> maps
  the ASCII letters itself and looks every other rune up in the case tables of
  package unicode; these tables are an argument here (they map, for one, U+0130 to
  the letter i).
\<close>

definition lower_char :: "char \<Rightarrow> char" where
  "lower_char c =
     (case map_of (zip ''ABCDEFGHIJKLMNOPQRSTUVWXYZ'' ''abcdefghijklmnopqrstuvwxyz'') c of
        Some l \<Rightarrow> l
      | None \<Rightarrow> c)"

definition RuneError :: nat where
  "RuneError = 0xFFFD"

definition cont :: "nat \<Rightarrow> bool" where
  "cont b = (0x80 \<le> b \<and> b \<le> 0xBF)"

text \<open>The second byte a first byte accepts.\<close>

definition accept :: "nat \<Rightarrow> nat \<Rightarrow> bool" where
  "accept b0 b1 =
     (if b0 = 0xE0 then 0xA0 \<le> b1 \<and> b1 \<le> 0xBF
      else if b0 = 0xED then 0x80 \<le> b1 \<and> b1 \<le> 0x9F
      else if b0 = 0xF0 then 0x90 \<le> b1 \<and> b1 \<le> 0xBF
      else if b0 = 0xF4 then 0x80 \<le> b1 \<and> b1 \<le> 0x8F
      else cont b1)"

text \<open>The rune at the head of a string of bytes, and its width.\<close>

fun DecodeRune :: "nat list \<Rightarrow> nat \<times> nat" where
  "DecodeRune [] = (RuneError, 0)"
| "DecodeRune (b0 # bs) =
     (if b0 < 0x80 then (b0, 1)
      else if 0xC2 \<le> b0 \<and> b0 \<le> 0xDF then
        (case bs of
           b1 # _ \<Rightarrow>
             if accept b0 b1 then ((b0 mod 32) * 64 + b1 mod 64, 2) else (RuneError, 1)
         | _ \<Rightarrow> (RuneError, 1))
      else if 0xE0 \<le> b0 \<and> b0 \<le> 0xEF then
        (case bs of
           b1 # b2 # _ \<Rightarrow>
             if accept b0 b1 \<and> cont b2
             then ((b0 mod 16) * 4096 + (b1 mod 64) * 64 + b2 mod 64, 3)
             else (RuneError, 1)
         | _ \<Rightarrow> (RuneError, 1))
      else if 0xF0 \<le> b0 \<and> b0 \<le> 0xF4 then
        (case bs of
           b1 # b2 # b3 # _ \<Rightarrow>
             if accept b0 b1 \<and> cont b2 \<and> cont b3
             then ((b0 mod 8) * 262144 + (b1 mod 64) * 4096 + (b2 mod 64) * 64 + b3 mod 64, 4)
             else (RuneError, 1)
         | _ \<Rightarrow> (RuneError, 1))
      else (RuneError, 1))"

text \<open>
  The runes of a string, as \<open>range\<close> yields them; the first argument counts the bytes
  still to skip of the rune read last.
\<close>

fun runes :: "nat \<Rightarrow> nat list \<Rightarrow> nat list" where
  "runes k [] = []"
| "runes k (b # bs) =
     (if 0 < k then runes (k - 1) bs
      else (case DecodeRune (b # bs) of (r, n) \<Rightarrow> r # runes (n - 1) bs))"

definition EncodeRune :: "nat \<Rightarrow> nat list" where
  "EncodeRune r =
     (if r < 0x80 then [r]
      else if r < 0x800 then [0xC0 + r div 64, 0x80 + r mod 64]
      else if 0x10FFFF < r \<or> (0xD800 \<le> r \<and> r \<le> 0xDFFF) then [0xEF, 0xBF, 0xBD]
      else if r < 0x10000 then [0xE0 + r div 4096, 0x80 + (r div 64) mod 64, 0x80 + r mod 64]
      else [0xF0 + r div 262144, 0x80 + (r div 4096) mod 64, 0x80 + (r div 64) mod 64,
            0x80 + r mod 64])"

definition unicode_ToLower :: "(nat \<Rightarrow> nat) \<Rightarrow> nat \<Rightarrow> nat" where
  "unicode_ToLower table r =
     (if r \<le> 0x7F then (if 0x41 \<le> r \<and> r \<le> 0x5A then r + 0x20 else r) else table r)"

definition ToLower :: "(nat \<Rightarrow> nat) \<Rightarrow> string \<Rightarrow> string" where
  "ToLower table s =
     (if list_all (\<lambda>c. \<not> digit7 c) s then map lower_char s
      else map char_of
             (concat (map (\<lambda>r. EncodeRune (unicode_ToLower table r))
                          (runes 0 (map of_char s)))))"

text \<open>
  \<open>filepath.Clean\<close> with separator \<open>/\<close>: empty and \<open>.\<close> elements are dropped, a
  \<open>..\<close> element removes the element before it, is dropped at the root and is kept at
  the start of a relative path; the empty result is \<open>.\<close>.
\<close>

fun split_path :: "string \<Rightarrow> string list" where
  "split_path [] = [[]]"
| "split_path (c # cs) =
     (if c = CHR ''/'' then [] # split_path cs
      else (case split_path cs of [] \<Rightarrow> [[c]] | e # es \<Rightarrow> (c # e) # es))"

fun clean_elems :: "bool \<Rightarrow> string list \<Rightarrow> string list \<Rightarrow> string list" where
  "clean_elems rooted out [] = rev out"
| "clean_elems rooted out (e # es) =
     (if e = [] \<or> e = ''.'' then clean_elems rooted out es
      else if e = ''..'' then
        (case out of
           [] \<Rightarrow> if rooted then clean_elems rooted [] es else clean_elems rooted [''..''] es
         | p # ps \<Rightarrow>
             if p = ''..'' then clean_elems rooted (''..'' # out) es
             else clean_elems rooted ps es)
      else clean_elems rooted (e # out) es)"

fun join_sep :: "string list \<Rightarrow> string" where
  "join_sep [] = []"
| "join_sep [e] = e"
| "join_sep (e # es) = e @ ''/'' @ join_sep es"

definition Clean :: "string \<Rightarrow> string" where
  "Clean path =
     (case path of
        [] \<Rightarrow> ''.''
      | c # cs \<Rightarrow>
          (let rooted = (c = CHR ''/'');
               body = join_sep (clean_elems rooted [] (split_path path))
           in if rooted then CHR ''/'' # body
              else if body = [] then ''.'' else body))"

text \<open>
  \<open>filepath.Join\<close>: leading empty elements are ignored, the rest is joined with the
  separator and cleaned; no non-empty element gives the empty string.
\<close>

definition Join :: "string list \<Rightarrow> string" where
  "Join elem =
     (case dropWhile (\<lambda>e. e = []) elem of
        [] \<Rightarrow> []
      | es \<Rightarrow> Clean (join_sep es))"

section \<open>Blob store (storageRepo)\<close>

text \<open>
  An \<open>image.Image\<close> is kept by the size of its bounds. The bytes of a file are kept by
  what the decoders of the standard library make of them: the encoding of a picture
  in one format, or bytes no decoder accepts.
\<close>

record picture =
  Dx :: go_int
  Dy :: go_int

datatype content = Encoded ImageFormat picture | Junk

type_synonym blobs = "string \<rightharpoonup> content"

text \<open>
  \<open>Save\<close> creates the directories, creates (and truncates) the file and copies the
  stream into it; each of the three can fail, and a failed copy leaves a truncated
  file behind.
\<close>

datatype save_outcome = Saved | MkdirAllFails string | CreateFails string | CopyFails string

definition Save :: "string \<Rightarrow> save_outcome \<Rightarrow> string \<Rightarrow> content \<Rightarrow> blobs \<Rightarrow> error option \<times> blobs" where
  "Save basePath io path data fs =
     (let fullPath = Join [basePath, path] in
      case io of
        MkdirAllFails e \<Rightarrow> (Some (Wrap ''failed to create directory'' (External e)), fs)
      | CreateFails e \<Rightarrow> (Some (Wrap ''failed to create file'' (External e)), fs)
      | CopyFails e \<Rightarrow> (Some (Wrap ''failed to write file'' (External e)), fs(fullPath \<mapsto> Junk))
      | Saved \<Rightarrow> (None, fs(fullPath \<mapsto> data)))"

definition Read :: "string \<Rightarrow> outcome \<Rightarrow> string \<Rightarrow> blobs \<Rightarrow> error + content" where
  "Read basePath io path fs =
     (case io of
        Fails e \<Rightarrow> Inl (Wrap ''failed to open file'' (External e))
      | Succeeds \<Rightarrow>
          (case fs (Join [basePath, path]) of
             None \<Rightarrow> Inl (Wrap ''file not found'' (External ''no such file or directory''))
           | Some c \<Rightarrow> Inr c))"

section \<open>Codecs and resizing (image/jpeg, image/png, image/gif, nfnt/resize)\<close>

text \<open>
  A decoder of the standard library accepts the bytes that encode a picture in its
  own format and nothing else.
\<close>

definition codec_Decode :: "ImageFormat \<Rightarrow> content \<Rightarrow> error + picture" where
  "codec_Decode f c =
     (case c of
        Junk \<Rightarrow> Inl (External ''invalid image data'')
      | Encoded g p \<Rightarrow> if g = f then Inr p else Inl (External ''invalid image data''))"

text \<open>
  \<open>resize.Resize(width, height, img, interp)\<close> of the library nfnt/resize. A target
  side that is 0 is first replaced by the side that keeps the aspect ratio of the
  image; the library computes it in floating point, and the computation is the
  first argument here: it gives the width and the height the library arrives at.
  Then an image that has the target size already is returned as it is, and so is
  an image without pixels (width or height not above 0). Any other image is scaled
  into a new image of the target size. The library panics when it cannot allocate
  that new image (a target beyond the memory at hand, or one whose conversion to
  \<open>int\<close> is negative); the caller does not return then, and the value \<open>Resize\<close> has
  for such a call stands for no result of the code.
\<close>

definition has_pixels :: "picture \<Rightarrow> bool" where
  "has_pixels img = (0 < sint (Dx img) \<and> 0 < sint (Dy img))"

definition Resize ::
  "(go_int \<Rightarrow> go_int \<Rightarrow> picture \<Rightarrow> go_int \<times> go_int) \<Rightarrow> go_int \<Rightarrow> go_int \<Rightarrow> picture
     \<Rightarrow> picture" where
  "Resize float_sides width height img =
     (let w = (if width = 0 then fst (float_sides width height img) else width);
          h = (if height = 0 then snd (float_sides width height img) else height)
      in if w = Dx img \<and> h = Dy img then img
         else if sint (Dx img) \<le> 0 \<or> sint (Dy img) \<le> 0 then img
         else \<lparr>Dx = w, Dy = h\<rparr>)"

section \<open>Configuration (package config)\<close>

record Config =
  Storage_BasePath :: string
  Image_MaxFileSize :: go_int
  Image_ThumbnailWidth :: go_int
  Image_ThumbnailHeight :: go_int
  Image_ProcessedWidth :: go_int
  Image_ProcessedHeight :: go_int
  Image_WatermarkEnabled :: bool
  Image_WatermarkPath :: string

section \<open>Task queue producer (package kafka)\<close>

record Message =
  Key :: string
  Value :: string

text \<open>
  The topic as the writer sees it: one log per partition, and the state of the
  writer's balancer. \<open>NewProducer\<close> configures the writer with
  \<open>Balancer: &kafka.LeastBytes{}\<close>. After the documentation of kafka-go, LeastBytes
  routes a message to the partition that has received the least amount of data from
  this writer: it keeps a byte counter per partition, takes the first partition with
  the smallest counter and adds the lengths of the message's key and value to it.
  The counters start at zero, and again when the number of partitions changes.
\<close>

record Writer =
  partitions :: "Message list list"
  counters :: "nat list"

fun least :: "nat list \<Rightarrow> nat \<Rightarrow> nat \<Rightarrow> nat \<Rightarrow> nat" where
  "least [] i minIndex minBytes = minIndex"
| "least (c # cs) i minIndex minBytes =
     (if c < minBytes then least cs (Suc i) i c else least cs (Suc i) minIndex minBytes)"

definition LeastBytes_Balance :: "Message \<Rightarrow> nat \<Rightarrow> nat list \<Rightarrow> nat \<times> nat list" where
  "LeastBytes_Balance msg n cs =
     (let cs0 = (if length cs \<noteq> n then replicate n 0 else cs);
          minIndex = (case cs0 of [] \<Rightarrow> 0 | c # rest \<Rightarrow> least rest 1 0 c)
      in (minIndex, cs0[minIndex := cs0 ! minIndex + length (Key msg) + length (Value msg)]))"

text \<open>
  \<open>Writer.WriteMessages\<close> for one message: blocking, no retry. A failed write and a
  topic without partitions leave the topic as it was.
\<close>

definition WriteMessages :: "outcome \<Rightarrow> Message \<Rightarrow> Writer \<Rightarrow> error option \<times> Writer" where
  "WriteMessages io msg wr =
     (case io of
        Fails e \<Rightarrow> (Some (External e), wr)
      | Succeeds \<Rightarrow>
          (if partitions wr = [] then (Some (External ''no partitions''), wr)
           else
             let (p, cs) = LeastBytes_Balance msg (length (partitions wr)) (counters wr)
             in (None, \<lparr>partitions = (partitions wr)[p := partitions wr ! p @ [msg]],
                        counters = cs\<rparr>)))"

text \<open>
  \<open>json.Marshal\<close> is the first argument of \<open>SendTask\<close>: any function from tasks to
  bytes or an error.
\<close>

definition SendTask ::
  "(ProcessingTask \<Rightarrow> error + string) \<Rightarrow> outcome \<Rightarrow> ProcessingTask \<Rightarrow> Writer
     \<Rightarrow> error option \<times> Writer" where
  "SendTask marshal io task wr =
     (case marshal task of
        Inl err \<Rightarrow> (Some (Wrap ''failed to marshal task'' err), wr)
      | Inr data \<Rightarrow>
          (let msg = \<lparr>Key = ImageID task, Value = data\<rparr> in
           case WriteMessages io msg wr of
             (Some err, wr') \<Rightarrow> (Some (Wrap ''failed to write message'' err), wr')
           | (None, wr') \<Rightarrow> (None, wr')))"

section \<open>Ingestion service (imageService)\<close>

record world =
  images :: registry
  files :: blobs
  writer :: Writer

record FileHeader =
  Filename :: string
  Size :: go_int

definition parseFormat :: "string \<Rightarrow> error + ImageFormat" where
  "parseFormat ext =
     (if ext = ''.jpg'' \<or> ext = ''.jpeg'' then Inr FormatJPEG
      else if ext = ''.png'' then Inr FormatPNG
      else if ext = ''.gif'' then Inr FormatGIF
      else Inl ErrInvalidFormat)"

definition decodeImageForDimensions :: "content \<Rightarrow> ImageFormat \<Rightarrow> error + picture" where
  "decodeImageForDimensions r format =
     (if format = FormatJPEG then codec_Decode FormatJPEG r
      else if format = FormatPNG then codec_Decode FormatPNG r
      else if format = FormatGIF then codec_Decode FormatGIF r
      else Inl ErrInvalidFormat)"

text \<open>
  What the surroundings hand to one call of \<open>Upload\<close>: the case tables of package
  unicode, the identifier \<open>repo.GenerateID()\<close> draws, the reading of \<open>time.Now()\<close>,
  and what the save of the original, the insert and the send do.
\<close>

record upload_env =
  unicode_table :: "nat \<Rightarrow> nat"
  new_id :: string
  save_io :: save_outcome
  now :: time
  create_io :: outcome
  send_io :: outcome

definition Upload ::
  "(ProcessingTask \<Rightarrow> error + string) \<Rightarrow> Config \<Rightarrow> upload_env \<Rightarrow> content \<Rightarrow> FileHeader
     \<Rightarrow> world \<Rightarrow> (error + Image) \<times> world" where
  "Upload marshal cfg env file header w =
     (if sint (Image_MaxFileSize cfg) < sint (Size header)
      then (Inl (Errorf ''file size exceeds maximum allowed size''), w)
      else
        let id = new_id env;
            ext = ToLower (unicode_table env) (Ext (Filename header))
        in case parseFormat ext of
          Inl err \<Rightarrow> (Inl (Wrap ''unsupported format'' err), w)
        | Inr format \<Rightarrow>
            (let originalPath = Join [''original'', id @ ext] in
             case Save (Storage_BasePath cfg) (save_io env) originalPath file (files w) of
               (Some err, fs) \<Rightarrow>
                 (Inl (Wrap ''failed to save original file'' err), w\<lparr>files := fs\<rparr>)
             | (None, fs) \<Rightarrow>
                 (case decodeImageForDimensions file format of
                    Inl err \<Rightarrow> (Inl (Wrap ''failed to decode image'' err), w\<lparr>files := fs\<rparr>)
                  | Inr img \<Rightarrow>
                      (let width = Dx img;
                           height = Dy img;
                           image = \<lparr>ID = id, OriginalPath = originalPath,
                                    ProcessedPath = [], ThumbnailPath = [],
                                    Status = StatusPending, Format = format,
                                    OriginalWidth = width, OriginalHeight = height,
                                    ProcessedWidth = 0, ProcessedHeight = 0,
                                    CreatedAt = now env, UpdatedAt = now env\<rparr>
                       in case Validate image of
                         Some err \<Rightarrow> (Inl (Wrap ''invalid image'' err), w\<lparr>files := fs\<rparr>)
                       | None \<Rightarrow>
                           (case Create (create_io env) image (images w) of
                              (Some err, reg) \<Rightarrow>
                                (Inl (Wrap ''failed to create image record'' err),
                                 w\<lparr>files := fs, images := reg\<rparr>)
                            | (None, reg) \<Rightarrow>
                                (let task = \<lparr>ImageID = id, ImagePath = originalPath,
                                             TaskFormat = format,
                                             Width = width, Height = height\<rparr>
                                 in case SendTask marshal (send_io env) task (writer w) of
                                   (Some err, wr) \<Rightarrow>
                                     (Inl (Wrap ''failed to send processing task'' err),
                                      w\<lparr>files := fs, images := reg, writer := wr\<rparr>)
                                 | (None, wr) \<Rightarrow>
                                     (Inr image,
                                      w\<lparr>files := fs, images := reg, writer := wr\<rparr>)))))))"

section \<open>Processing worker (processorService)\<close>

definition decodeImage :: "content \<Rightarrow> ImageFormat \<Rightarrow> error + picture" where
  "decodeImage r format =
     (if format = FormatJPEG then codec_Decode FormatJPEG r
      else if format = FormatPNG then codec_Decode FormatPNG r
      else if format = FormatGIF then codec_Decode FormatGIF r
      else Inl ErrInvalidFormat)"

definition getExtension :: "ImageFormat \<Rightarrow> string" where
  "getExtension format =
     (if format = FormatJPEG then ''.jpg''
      else if format = FormatPNG then ''.png''
      else if format = FormatGIF then ''.gif''
      else ''.jpg'')"

text \<open>
  \<open>saveImage\<close> creates a temporary file, encodes the image into it in the given
  format and saves the temporary file to the blob store. The three steps can fail
  one by one; a format outside the three is \<open>ErrInvalidFormat\<close>.
\<close>

record saveImage_env =
  temp_io :: outcome
  encode_io :: outcome
  store_io :: save_outcome

definition saveImage ::
  "string \<Rightarrow> saveImage_env \<Rightarrow> string \<Rightarrow> picture \<Rightarrow> ImageFormat \<Rightarrow> blobs
     \<Rightarrow> error option \<times> blobs" where
  "saveImage basePath env path img format fs =
     (case temp_io env of
        Fails e \<Rightarrow> (Some (Wrap ''failed to create temp file'' (External e)), fs)
      | Succeeds \<Rightarrow>
          (let encoded = (\<lambda>msg.
                 case encode_io env of
                   Fails e \<Rightarrow> (Some (Wrap msg (External e)), fs)
                 | Succeeds \<Rightarrow> Save basePath (store_io env) path (Encoded format img) fs)
           in if format = FormatJPEG then encoded ''failed to encode JPEG''
              else if format = FormatPNG then encoded ''failed to encode PNG''
              else if format = FormatGIF then encoded ''failed to encode GIF''
              else (Some ErrInvalidFormat, fs)))"

text \<open>
  What the surroundings hand to one call of \<open>ProcessImage\<close>: what each call on the
  registry and the blob store does, the readings of \<open>time.Now()\<close>, and the
  floating-point computation of the resize library. Every path
  through the function reads the clock once for the first update and at most once
  more, and issues at most one registry update after the first.
\<close>

record process_env =
  float_sides :: "go_int \<Rightarrow> go_int \<Rightarrow> picture \<Rightarrow> go_int \<times> go_int"
  get_io :: outcome
  now_start :: time
  update_start_io :: outcome
  read_io :: outcome
  processed_io :: saveImage_env
  thumbnail_io :: saveImage_env
  now_end :: time
  update_end_io :: outcome

text \<open>
  The block repeated on the four failure paths after the first update: set
  \<open>StatusFailed\<close> and \<open>UpdatedAt\<close>, update the row, and drop the update's error.
\<close>

definition mark_failed :: "process_env \<Rightarrow> Image \<Rightarrow> world \<Rightarrow> world" where
  "mark_failed env img w =
     w\<lparr>images := snd (Update (update_end_io env)
                          (img\<lparr>Status := StatusFailed, UpdatedAt := now_end env\<rparr>)
                          (images w))\<rparr>"

text \<open>
  The watermark branch of the source has an empty body, so the flag and the path
  have no effect.
\<close>

definition ProcessImage ::
  "Config \<Rightarrow> process_env \<Rightarrow> ProcessingTask \<Rightarrow> world \<Rightarrow> error option \<times> world" where
  "ProcessImage cfg env task w =
     (case GetByID (get_io env) (ImageID task) (images w) of
        Inl err \<Rightarrow> (Some (Wrap ''failed to get image'' err), w)
      | Inr img0 \<Rightarrow>
          (let img = img0\<lparr>Status := StatusProcessing, UpdatedAt := now_start env\<rparr> in
           case Update (update_start_io env) img (images w) of
             (Some err, reg) \<Rightarrow> (Some (Wrap ''failed to update status'' err), w\<lparr>images := reg\<rparr>)
           | (None, reg) \<Rightarrow>
               (let w1 = w\<lparr>images := reg\<rparr> in
                case Read (Storage_BasePath cfg) (read_io env) (ImagePath task) (files w1) of
                  Inl err \<Rightarrow>
                    (Some (Wrap ''failed to read original image'' err), mark_failed env img w1)
                | Inr originalReader \<Rightarrow>
                    (case decodeImage originalReader (TaskFormat task) of
                       Inl err \<Rightarrow>
                         (Some (Wrap ''failed to decode image'' err), mark_failed env img w1)
                     | Inr originalImg \<Rightarrow>
                         (let processedImg = Resize (float_sides env) (Image_ProcessedWidth cfg)
                                               (Image_ProcessedHeight cfg) originalImg;
                              thumbnailImg = Resize (float_sides env) (Image_ThumbnailWidth cfg)
                                               (Image_ThumbnailHeight cfg) originalImg;
                              processedPath = Join [''processed'',
                                               ImageID task @ getExtension (TaskFormat task)]
                          in case saveImage (Storage_BasePath cfg) (processed_io env)
                                    processedPath processedImg (TaskFormat task) (files w1) of
                            (Some err, fs) \<Rightarrow>
                              (Some (Wrap ''failed to save processed image'' err),
                               mark_failed env img (w1\<lparr>files := fs\<rparr>))
                          | (None, fs) \<Rightarrow>
                              (let w2 = w1\<lparr>files := fs\<rparr>;
                                   thumbnailPath = Join [''thumbnail'',
                                               ImageID task @ getExtension (TaskFormat task)]
                               in case saveImage (Storage_BasePath cfg) (thumbnail_io env)
                                        thumbnailPath thumbnailImg (TaskFormat task) (files w2) of
                                 (Some err, fs') \<Rightarrow>
                                   (Some (Wrap ''failed to save thumbnail'' err),
                                    mark_failed env img (w2\<lparr>files := fs'\<rparr>))
                               | (None, fs') \<Rightarrow>
                                   (let w3 = w2\<lparr>files := fs'\<rparr>;
                                        img' = img\<lparr>ProcessedPath := processedPath,
                                                   ThumbnailPath := thumbnailPath,
                                                   Status := StatusCompleted,
                                                   ProcessedWidth := Dx processedImg,
                                                   ProcessedHeight := Dy processedImg,
                                                   UpdatedAt := now_end env\<rparr>
                                    in case Update (update_end_io env) img' (images w3) of
                                      (Some err, reg') \<Rightarrow>
                                        (Some (Wrap ''failed to update image record'' err),
                                         w3\<lparr>images := reg'\<rparr>)
                                    | (None, reg') \<Rightarrow> (None, w3\<lparr>images := reg'\<rparr>))))))))"

section \<open>Task queue consumer (package kafka)\<close>

text \<open>
  The calls the loop makes on its two collaborators, in order: \<open>ProcessImage\<close> on the
  processor and \<open>CommitMessages\<close> on the reader.
\<close>

datatype call = Invoke ProcessingTask | Commit Message

text \<open>
  What the surroundings hand to one turn of the loop: whether the context is done
  when the turn starts, what \<open>FetchMessage\<close> returns (an error text or a message),
  and what the commit of this turn does.
\<close>

record event =
  ctx_done :: bool
  fetched :: "string + Message"
  commit_io :: outcome

text \<open>
  \<open>consumer.Start\<close>: the loop runs one turn per event. \<open>json.Unmarshal\<close> and the
  processor are arguments; the processor works on a state of its own. The result is
  the error the loop returns with, the calls made and the processor's state. When
  the events are used up the loop has not returned: it waits in \<open>FetchMessage\<close>, and
  the result holds no error.
\<close>

fun Start ::
  "(string \<Rightarrow> ProcessingTask option) \<Rightarrow> (ProcessingTask \<Rightarrow> 's \<Rightarrow> error option \<times> 's)
     \<Rightarrow> event list \<Rightarrow> call list \<times> 's \<Rightarrow> error option \<times> call list \<times> 's" where
  "Start unmarshal processor [] (calls, s) = (None, calls, s)"
| "Start unmarshal processor (ev # evs) (calls, s) =
     (if ctx_done ev then (Some Canceled, calls, s)
      else
        case fetched ev of
          Inl e \<Rightarrow> (Some (Wrap ''failed to fetch message'' (External e)), calls, s)
        | Inr msg \<Rightarrow>
            (case unmarshal (Value msg) of
               None \<Rightarrow> Start unmarshal processor evs (calls @ [Commit msg], s)
             | Some task \<Rightarrow>
                 (let s' = snd (processor task s);
                      calls' = calls @ [Invoke task, Commit msg]
                  in case commit_io ev of
                    Fails e \<Rightarrow>
                      (Some (Wrap ''failed to commit message'' (External e)), calls', s')
                  | Succeeds \<Rightarrow> Start unmarshal processor evs (calls', s'))))"

text \<open>
  A turn of the loop in which the context is not done, \<open>FetchMessage\<close> returns the
  message and the commit goes through.
\<close>

definition delivery :: "Message \<Rightarrow> event" where
  "delivery msg = \<lparr>ctx_done = False, fetched = Inr msg, commit_io = Succeeds\<rparr>"

text \<open>
  What section 4.3 of the specification asks of the loop for one fetched message: a
  message that does not deserialize is committed and dropped; any other is handed to
  the processor once and then committed once.
\<close>

definition expected_calls :: "(string \<Rightarrow> ProcessingTask option) \<Rightarrow> Message \<Rightarrow> call list" where
  "expected_calls unmarshal msg =
     (case unmarshal (Value msg) of
        None \<Rightarrow> [Commit msg]
      | Some task \<Rightarrow> [Invoke task, Commit msg])"

text \<open>
  The processor's state after it has been run, in order, on the messages that
  deserialize; what each run returns is not looked at.
\<close>

definition processed ::
  "(string \<Rightarrow> ProcessingTask option) \<Rightarrow> (ProcessingTask \<Rightarrow> 's \<Rightarrow> error option \<times> 's)
     \<Rightarrow> Message list \<Rightarrow> 's \<Rightarrow> 's" where
  "processed unmarshal processor msgs s =
     foldl (\<lambda>s msg. case unmarshal (Value msg) of
                       None \<Rightarrow> s
                     | Some task \<Rightarrow> snd (processor task s)) s msgs"

section \<open>Status changes\<close>

text \<open>
  The statuses the worker writes, and the relation between a row before and after
  an operation that does not move it to \<open>pending\<close>: its status is kept, or it is one
  of the statuses the worker writes.
\<close>

definition written :: "ProcessingStatus \<Rightarrow> bool" where
  "written s = (s = StatusProcessing \<or> s = StatusCompleted \<or> s = StatusFailed)"


section \<open>Sample data\<close>

text \<open>The defaults of \<open>config.Load\<close>.\<close>

definition cfg0 :: Config where
  "cfg0 = \<lparr>Storage_BasePath = ''./storage'', Image_MaxFileSize = 10485760,
           Image_ThumbnailWidth = 200, Image_ThumbnailHeight = 200,
           Image_ProcessedWidth = 800, Image_ProcessedHeight = 800,
           Image_WatermarkEnabled = False, Image_WatermarkPath = []\<rparr>"

text \<open>A codec for the samples: the fields of a task, the numbers in decimal.\<close>

function digits :: "nat \<Rightarrow> string" where
  "digits n =
     (if n < 10 then [''0123456789'' ! n]
      else digits (n div 10) @ [''0123456789'' ! (n mod 10)])"
  by pat_completeness auto
termination
  by (relation "measure id") auto

declare digits.simps [simp del]

definition decimal :: "go_int \<Rightarrow> string" where
  "decimal x =
     (if sint x < 0 then CHR ''-'' # digits (nat (- sint x)) else digits (nat (sint x)))"

definition sample_marshal :: "ProcessingTask \<Rightarrow> error + string" where
  "sample_marshal t =
     Inr (''{image_id:'' @ ImageID t @ '',image_path:'' @ ImagePath t @ '',format:''
          @ TaskFormat t @ '',width:'' @ decimal (Width t) @ '',height:''
          @ decimal (Height t) @ ''}'')"

text \<open>An empty system with a topic of two partitions.\<close>

definition fresh_writer :: Writer where
  "fresh_writer = \<lparr>partitions = [[], []], counters = []\<rparr>"

definition w_empty :: world where
  "w_empty = \<lparr>images = [], files = Map.empty, writer = fresh_writer\<rparr>"

text \<open>
  The two runes beyond ASCII whose lower case is an ASCII letter, U+0130 and
  U+212A, as the case tables have them; the other runes are left as they are.
\<close>

definition sample_table :: "nat \<Rightarrow> nat" where
  "sample_table r = (if r = 0x130 then 0x69 else if r = 0x212A then 0x6B else r)"

text \<open>
  The missing side of a target in exact arithmetic, rounded down, in place of the
  floating-point computation of the library.
\<close>

definition sample_sides :: "go_int \<Rightarrow> go_int \<Rightarrow> picture \<Rightarrow> go_int \<times> go_int" where
  "sample_sides width height img =
     (if width = 0 \<and> height = 0 then (Dx img, Dy img)
      else if sint (Dx img) \<le> 0 \<or> sint (Dy img) \<le> 0 then (width, height)
      else (word_of_int ((sint height * sint (Dx img)) div sint (Dy img)),
            word_of_int ((sint width * sint (Dy img)) div sint (Dx img))))"

text \<open>A 1920 x 1080 JPEG, uploaded as \<open>photo.jpeg\<close> with every external call succeeding.\<close>

definition photo :: content where
  "photo = Encoded FormatJPEG \<lparr>Dx = 1920, Dy = 1080\<rparr>"

definition uenv0 :: upload_env where
  "uenv0 = \<lparr>unicode_table = sample_table, new_id = ''7f3a'', save_io = Saved, now = 1,
            create_io = Succeeds, send_io = Succeeds\<rparr>"

definition row0 :: Image where
  "row0 = \<lparr>ID = ''7f3a'', OriginalPath = ''original/7f3a.jpeg'',
           ProcessedPath = [], ThumbnailPath = [],
           Status = StatusPending, Format = FormatJPEG,
           OriginalWidth = 1920, OriginalHeight = 1080,
           ProcessedWidth = 0, ProcessedHeight = 0,
           CreatedAt = 1, UpdatedAt = 1\<rparr>"

definition task0 :: ProcessingTask where
  "task0 = \<lparr>ImageID = ''7f3a'', ImagePath = ''original/7f3a.jpeg'',
            TaskFormat = FormatJPEG, Width = 1920, Height = 1080\<rparr>"

text \<open>The same task with the path of a blob that does not exist.\<close>

definition task_lost :: ProcessingTask where
  "task_lost = task0\<lparr>ImagePath := ''original/lost.jpeg''\<rparr>"

text \<open>The system after that upload, and the same with the row already completed.\<close>

definition w_uploaded :: world where
  "w_uploaded =
     \<lparr>images = [row0],
      files = [''storage/original/7f3a.jpeg'' \<mapsto> photo],
      writer = \<lparr>partitions = [[\<lparr>Key = ''7f3a'',
                    Value = ''{image_id:7f3a,image_path:original/7f3a.jpeg,format:jpeg,width:1920,height:1080}''\<rparr>], []],
                counters = [84, 0]\<rparr>\<rparr>"

definition row_completed :: Image where
  "row_completed = row0\<lparr>ProcessedPath := ''processed/7f3a.jpg'',
                         ThumbnailPath := ''thumbnail/7f3a.jpg'',
                         Status := StatusCompleted,
                         ProcessedWidth := 800, ProcessedHeight := 800,
                         UpdatedAt := 3\<rparr>"

definition w_completed :: world where
  "w_completed = w_uploaded\<lparr>images := [row_completed]\<rparr>"

text \<open>A run of the worker in which every external call succeeds, and one in which
  the last registry update fails.\<close>

definition save_ok :: saveImage_env where
  "save_ok = \<lparr>temp_io = Succeeds, encode_io = Succeeds, store_io = Saved\<rparr>"

definition penv0 :: process_env where
  "penv0 = \<lparr>float_sides = sample_sides, get_io = Succeeds, now_start = 2, update_start_io = Succeeds,
            read_io = Succeeds, processed_io = save_ok, thumbnail_io = save_ok,
            now_end = 3, update_end_io = Succeeds\<rparr>"

definition penv_db_lost :: process_env where
  "penv_db_lost = penv0\<lparr>update_end_io := Fails ''connection lost''\<rparr>"

text \<open>
  A GIF without pixels, uploaded as \<open>blank.gif\<close> into the empty system, and the
  system after that upload.
\<close>

definition blank :: content where
  "blank = Encoded FormatGIF \<lparr>Dx = 0, Dy = 0\<rparr>"

definition row_blank :: Image where
  "row_blank = \<lparr>ID = ''7f3a'', OriginalPath = ''original/7f3a.gif'',
                ProcessedPath = [], ThumbnailPath = [],
                Status = StatusPending, Format = FormatGIF,
                OriginalWidth = 0, OriginalHeight = 0,
                ProcessedWidth = 0, ProcessedHeight = 0,
                CreatedAt = 1, UpdatedAt = 1\<rparr>"

definition task_blank :: ProcessingTask where
  "task_blank = \<lparr>ImageID = ''7f3a'', ImagePath = ''original/7f3a.gif'',
                 TaskFormat = FormatGIF, Width = 0, Height = 0\<rparr>"

definition w_blank :: world where
  "w_blank =
     \<lparr>images = [row_blank],
      files = [''storage/original/7f3a.gif'' \<mapsto> blank],
      writer = \<lparr>partitions = [[\<lparr>Key = ''7f3a'',
                    Value = ''{image_id:7f3a,image_path:original/7f3a.gif,format:gif,width:0,height:0}''\<rparr>], []],
                counters = [76, 0]\<rparr>\<rparr>"

section \<open>The registry\<close>

lemmas status_defs = StatusPending_def StatusProcessing_def StatusCompleted_def StatusFailed_def
lemmas format_defs = FormatJPEG_def FormatPNG_def FormatGIF_def

lemma Update_ingestion:
  "map ingestion_fields (snd (Update io img reg)) = map ingestion_fields reg"
  by (cases io) (simp_all add: Update_def ingestion_fields_def)

lemma mark_failed_ingestion:
  "map ingestion_fields (images (mark_failed env img w)) = map ingestion_fields (images w)"
  by (simp add: mark_failed_def Update_ingestion)

lemma ProcessImage_ingestion:
  "map ingestion_fields (images (snd (ProcessImage cfg env task w))) =
   map ingestion_fields (images w)"
proof -
  have upd: "\<And>io img reg r reg'. Update io img reg = (r, reg') \<Longrightarrow>
      map ingestion_fields reg' = map ingestion_fields reg"
    using Update_ingestion by (metis snd_conv)
  show ?thesis
    unfolding ProcessImage_def Let_def
    by (auto split: sum.splits prod.splits option.splits
        simp: mark_failed_ingestion dest!: upd)
qed

lemma Create_rows:
  "snd (Create io img reg) = reg \<or> snd (Create io img reg) = reg @ [img]"
  by (cases io) (simp_all add: Create_def split: option.splits)

lemma Upload_rows:
  "\<exists>new. images (snd (Upload marshal cfg env file header w)) = images w @ new"
proof -
  have cr: "\<And>io img reg r reg'. Create io img reg = (r, reg') \<Longrightarrow> \<exists>new. reg' = reg @ new"
    using Create_rows by (metis append_Nil2 snd_conv)
  show ?thesis
    unfolding Upload_def Let_def
    by (auto split: sum.splits prod.splits option.splits dest!: cr)
qed

lemma row_of_ID: "row_of i reg = Some row \<Longrightarrow> ID row = i"
  by (auto simp: row_of_def find_Some_iff)

lemma row_of_map:
  "(\<And>row. ID (f row) = ID row) \<Longrightarrow> row_of i (map f reg) = map_option f (row_of i reg)"
  by (induction reg) (simp_all add: row_of_def)


lemma written_simps [simp]:
  "written StatusProcessing" "written StatusCompleted" "written StatusFailed"
  by (simp_all add: written_def)









lemma Resize_nonzero:
  assumes "width \<noteq> 0" "height \<noteq> 0"
  shows "Dx (Resize sides width height img) = (if has_pixels img then width else Dx img)"
    and "Dy (Resize sides width height img) = (if has_pixels img then height else Dy img)"
  using assms by (auto simp: Resize_def has_pixels_def)

section \<open>Paths\<close>

lemma split_path_plain: "CHR ''/'' \<notin> set n \<Longrightarrow> split_path n = [n]"
  by (induction n) auto

lemma split_path_append:
  "CHR ''/'' \<notin> set d \<Longrightarrow> split_path (d @ CHR ''/'' # r) = d # split_path r"
  by (induction d) auto

lemma Join_dir_file:
  assumes "CHR ''/'' \<notin> set d" "d \<noteq> []" "d \<noteq> ''.''" "d \<noteq> ''..''"
      and "CHR ''/'' \<notin> set n" "n \<noteq> []" "n \<noteq> ''.''" "n \<noteq> ''..''"
  shows "Join [d, n] = d @ ''/'' @ n"
proof -
  have sp: "split_path (d @ CHR ''/'' # n) = [d, n]"
    using assms by (simp add: split_path_append split_path_plain)
  obtain c cs where d: "d = c # cs" using assms(2) by (cases d) auto
  have c: "c \<noteq> CHR ''/''" using assms(1) d by auto
  have "Clean (d @ CHR ''/'' # n) = d @ CHR ''/'' # n"
    using assms sp c unfolding Clean_def d by (simp add: Let_def)
  then show ?thesis using assms(2) by (simp add: Join_def)
qed

lemma Join_id_ext:
  assumes "CHR ''/'' \<notin> set i" "e \<in> {''.jpg'', ''.jpeg'', ''.png'', ''.gif''}"
      and "d \<in> {''original'', ''processed'', ''thumbnail''}"
  shows "Join [d, i @ e] = d @ ''/'' @ i @ e"
proof (rule Join_dir_file)
  show "i @ e \<noteq> ''.''" "i @ e \<noteq> ''..''" "i @ e \<noteq> []"
    using assms(2) by (auto simp: append_eq_Cons_conv)
  show "CHR ''/'' \<notin> set (i @ e)" using assms(1,2) by auto
qed (use assms(3) in auto)

lemma getExtension_cases: "getExtension f \<in> {''.jpg'', ''.png'', ''.gif''}"
  by (simp add: getExtension_def)

lemma parseFormat_ext:
  "parseFormat e = Inr f \<Longrightarrow>
     e \<in> {''.jpg'', ''.jpeg'', ''.png'', ''.gif''}
   \<and> getExtension f = (if e = ''.jpeg'' then ''.jpg'' else e)"
  by (auto simp: parseFormat_def getExtension_def format_defs split: if_splits)

lemma saveImage_stored:
  "saveImage base env path img format fs = (None, fs') \<Longrightarrow>
   fs' = fs(Join [base, path] \<mapsto> Encoded format img)"
  by (auto simp: saveImage_def Save_def Let_def split: outcome.splits save_outcome.splits if_splits)

lemma Save_stored:
  "Save base io path data fs = (None, fs') \<Longrightarrow> fs' = fs(Join [base, path] \<mapsto> data)"
  by (auto simp: Save_def Let_def split: save_outcome.splits)


lemma Read_found:
  "Read base io path fs = Inr c \<Longrightarrow> fs (Join [base, path]) = Some c"
  by (auto simp: Read_def split: outcome.splits option.splits)


section \<open>The paths through ProcessImage\<close>

lemma Update_Fails [simp]:
  "Update (Fails e) img reg = (Some (Wrap ''failed to update image'' (External e)), reg)"
  by (simp add: Update_def)

lemma Update_result:
  "Update io img reg = (r, reg') \<Longrightarrow>
     (io = Succeeds \<and> r = None \<and> reg' = snd (Update Succeeds img reg))
   \<or> (\<exists>e. io = Fails e \<and> r = Some (Wrap ''failed to update image'' (External e)) \<and> reg' = reg)"
  by (cases io) (auto simp: Update_def)

lemma ProcessImage_cases:
  fixes cfg env task w
  defines "base \<equiv> Storage_BasePath cfg"
      and "ext \<equiv> getExtension (TaskFormat task)"
  obtains
    (GetFailed) e where
      "GetByID (get_io env) (ImageID task) (images w) = Inl e"
      "ProcessImage cfg env task w = (Some (Wrap ''failed to get image'' e), w)"
  | (StartFailed) img0 e where
      "row_of (ImageID task) (images w) = Some img0"
      "ProcessImage cfg env task w = (Some (Wrap ''failed to update status'' e), w)"
  | (Failed) img0 reg1 msg e fs where
      "row_of (ImageID task) (images w) = Some img0"
      "reg1 = snd (Update Succeeds (img0\<lparr>Status := StatusProcessing, UpdatedAt := now_start env\<rparr>) (images w))"
      "msg \<in> {''failed to read original image'', ''failed to decode image'',
               ''failed to save processed image'', ''failed to save thumbnail''}"
      "ProcessImage cfg env task w =
         (Some (Wrap msg e),
          mark_failed env (img0\<lparr>Status := StatusProcessing, UpdatedAt := now_start env\<rparr>)
            (w\<lparr>images := reg1, files := fs\<rparr>))"
  | (EndFailed) img0 reg1 e fs where
      "row_of (ImageID task) (images w) = Some img0"
      "reg1 = snd (Update Succeeds (img0\<lparr>Status := StatusProcessing, UpdatedAt := now_start env\<rparr>) (images w))"
      "ProcessImage cfg env task w =
         (Some (Wrap ''failed to update image record'' e), w\<lparr>images := reg1, files := fs\<rparr>)"
  | (Completed) img0 reg1 orig fs1 fs c where
      "row_of (ImageID task) (images w) = Some img0"
      "reg1 = snd (Update Succeeds (img0\<lparr>Status := StatusProcessing, UpdatedAt := now_start env\<rparr>) (images w))"
      "saveImage base (processed_io env) (Join [''processed'', ImageID task @ ext])
         (Resize (float_sides env) (Image_ProcessedWidth cfg) (Image_ProcessedHeight cfg) orig)
         (TaskFormat task) (files w) = (None, fs1)"
      "saveImage base (thumbnail_io env) (Join [''thumbnail'', ImageID task @ ext])
         (Resize (float_sides env) (Image_ThumbnailWidth cfg) (Image_ThumbnailHeight cfg) orig)
         (TaskFormat task) fs1 = (None, fs)"
      "ProcessImage cfg env task w =
         (None,
          w\<lparr>images := snd (Update Succeeds
               (img0\<lparr>Status := StatusProcessing, UpdatedAt := now_start env,
                     ProcessedPath := Join [''processed'', ImageID task @ ext],
                     ThumbnailPath := Join [''thumbnail'', ImageID task @ ext],
                     Status := StatusCompleted,
                     ProcessedWidth := Dx (Resize (float_sides env) (Image_ProcessedWidth cfg) (Image_ProcessedHeight cfg) orig),
                     ProcessedHeight := Dy (Resize (float_sides env) (Image_ProcessedWidth cfg) (Image_ProcessedHeight cfg) orig),
                     UpdatedAt := now_end env\<rparr>) reg1),
            files := fs\<rparr>)"
      "Read base (read_io env) (ImagePath task) (files w) = Inr c"
      "decodeImage c (TaskFormat task) = Inr orig"
proof (cases "GetByID (get_io env) (ImageID task) (images w)")
  case (Inl e)
  then show ?thesis using GetFailed by (simp add: ProcessImage_def)
next
  case (Inr img0)
  then have row: "row_of (ImageID task) (images w) = Some img0"
    by (auto simp: GetByID_def split: outcome.splits option.splits)
  let ?img = "img0\<lparr>Status := StatusProcessing, UpdatedAt := now_start env\<rparr>"
  obtain r1 reg1 where u1: "Update (update_start_io env) ?img (images w) = (r1, reg1)"
    by (cases "Update (update_start_io env) ?img (images w)")
  from Update_result[OF u1] show ?thesis
  proof (elim disjE conjE exE)
    fix e assume "update_start_io env = Fails e"
      "r1 = Some (Wrap ''failed to update image'' (External e))" "reg1 = images w"
    then show ?thesis using StartFailed[OF row] Inr u1 by (simp add: ProcessImage_def)
  next
    assume s: "update_start_io env = Succeeds" "r1 = None"
       and reg1: "reg1 = snd (Update Succeeds ?img (images w))"
    show ?thesis
    proof (cases "Read base (read_io env) (ImagePath task) (files w)")
      case (Inl e)
      have "ProcessImage cfg env task w =
         (Some (Wrap ''failed to read original image'' e),
          mark_failed env ?img (w\<lparr>images := reg1, files := files w\<rparr>))"
        using Inr u1 s Inl by (simp add: ProcessImage_def Let_def base_def)
      then show ?thesis using Failed[OF row reg1] by blast
    next
      case rd: (Inr c)
      show ?thesis
      proof (cases "decodeImage c (TaskFormat task)")
        case (Inl e)
        have "ProcessImage cfg env task w =
           (Some (Wrap ''failed to decode image'' e),
            mark_failed env ?img (w\<lparr>images := reg1, files := files w\<rparr>))"
          using Inr u1 s rd Inl by (simp add: ProcessImage_def Let_def base_def)
        then show ?thesis using Failed[OF row reg1] by blast
      next
        case dc: (Inr orig)
        let ?p = "Resize (float_sides env) (Image_ProcessedWidth cfg) (Image_ProcessedHeight cfg) orig"
        let ?t = "Resize (float_sides env) (Image_ThumbnailWidth cfg) (Image_ThumbnailHeight cfg) orig"
        obtain r2 fs1 where s1: "saveImage base (processed_io env)
            (Join [''processed'', ImageID task @ ext]) ?p (TaskFormat task) (files w) = (r2, fs1)"
          by (cases "saveImage base (processed_io env)
            (Join [''processed'', ImageID task @ ext]) ?p (TaskFormat task) (files w)")
        show ?thesis
        proof (cases r2)
          case (Some e)
          have "ProcessImage cfg env task w =
             (Some (Wrap ''failed to save processed image'' e),
              mark_failed env ?img (w\<lparr>images := reg1, files := fs1\<rparr>))"
            using Inr u1 s rd dc s1 Some by (simp add: ProcessImage_def Let_def base_def ext_def)
          then show ?thesis using Failed[OF row reg1] by blast
        next
          case None
          obtain r3 fs2 where s2: "saveImage base (thumbnail_io env)
              (Join [''thumbnail'', ImageID task @ ext]) ?t (TaskFormat task) fs1 = (r3, fs2)"
            by (cases "saveImage base (thumbnail_io env)
              (Join [''thumbnail'', ImageID task @ ext]) ?t (TaskFormat task) fs1")
          show ?thesis
          proof (cases r3)
            case (Some e)
            have "ProcessImage cfg env task w =
               (Some (Wrap ''failed to save thumbnail'' e),
                mark_failed env ?img (w\<lparr>images := reg1, files := fs2\<rparr>))"
              using Inr u1 s rd dc s1 None s2 Some
              by (simp add: ProcessImage_def Let_def base_def ext_def)
            then show ?thesis using Failed[OF row reg1] by blast
          next
            case n3: None
            let ?img' = "?img\<lparr>ProcessedPath := Join [''processed'', ImageID task @ ext],
                     ThumbnailPath := Join [''thumbnail'', ImageID task @ ext],
                     Status := StatusCompleted,
                     ProcessedWidth := Dx ?p, ProcessedHeight := Dy ?p,
                     UpdatedAt := now_end env\<rparr>"
            obtain r4 reg2 where u2: "Update (update_end_io env) ?img' reg1 = (r4, reg2)"
              by (cases "Update (update_end_io env) ?img' reg1")
            from Update_result[OF u2] show ?thesis
            proof (elim disjE conjE exE)
              fix e assume "update_end_io env = Fails e"
                "r4 = Some (Wrap ''failed to update image'' (External e))" "reg2 = reg1"
              then have "ProcessImage cfg env task w =
                 (Some (Wrap ''failed to update image record''
                    (Wrap ''failed to update image'' (External e))),
                  w\<lparr>images := reg1, files := fs2\<rparr>)"
                using Inr u1 s rd dc s1 None s2 n3 u2
                by (simp add: ProcessImage_def Let_def base_def ext_def)
              then show ?thesis using EndFailed[OF row reg1] by blast
            next
              assume ok: "update_end_io env = Succeeds" "r4 = None"
                 and reg2: "reg2 = snd (Update Succeeds ?img' reg1)"
              have "ProcessImage cfg env task w = (None, w\<lparr>images := reg2, files := fs2\<rparr>)"
                using Inr u1 s rd dc s1 None s2 n3 u2 ok
                by (simp add: ProcessImage_def Let_def base_def ext_def)
              then show ?thesis
                using Completed[OF row reg1 s1[unfolded None] s2[unfolded n3] _ rd dc] reg2
                by (simp add: ext_def)
            qed
          qed
        qed
      qed
    qed
  qed
qed


lemma row_of_Update:
  assumes "row_of i reg = Some row" "ID img = i"
  shows "\<exists>row'. row_of i (snd (Update Succeeds img reg)) = Some row'
           \<and> Status row' = Status img
           \<and> ProcessedPath row' = ProcessedPath img \<and> ThumbnailPath row' = ThumbnailPath img
           \<and> ProcessedWidth row' = ProcessedWidth img
           \<and> ProcessedHeight row' = ProcessedHeight img
           \<and> OriginalPath row' = OriginalPath row"
  using assms row_of_ID[OF assms(1)] by (simp add: Update_def row_of_map)

lemma row_of_Update_other:
  "i \<noteq> ID img \<Longrightarrow> row_of i (snd (Update io img reg)) = row_of i reg"
proof (cases io)
  case Succeeds
  assume ne: "i \<noteq> ID img"
  show ?thesis
  proof (cases "row_of i reg")
    case None
    then show ?thesis using Succeeds by (simp add: Update_def row_of_map)
  next
    case (Some r)
    then have "ID r = i" by (rule row_of_ID)
    then show ?thesis using Succeeds Some ne by (simp add: Update_def row_of_map)
  qed
next
  case (Fails e)
  then show ?thesis by simp
qed

lemma row_of_Update_status:
  assumes a: "row_of i (snd (Update io img reg)) = Some r'"
  shows "row_of i reg = Some r' \<or> (i = ID img \<and> io = Succeeds \<and> Status r' = Status img
      \<and> ProcessedWidth r' = ProcessedWidth img \<and> ProcessedHeight r' = ProcessedHeight img)"
proof (cases io)
  case Succeeds
  show ?thesis
  proof (cases "i = ID img")
    case True
    from a Succeeds obtain r where r: "row_of i reg = Some r"
      by (auto simp: Update_def row_of_map)
    from row_of_Update[OF r True[symmetric]] a Succeeds True show ?thesis by auto
  next
    case False
    then show ?thesis using a row_of_Update_other[OF False] by simp
  qed
next
  case (Fails e)
  then show ?thesis using a by simp
qed

lemma reaches_completed:
  assumes before: "row_of i (images w) = Some r" "Status r \<noteq> StatusCompleted"
      and after: "row_of i (images (snd (ProcessImage cfg env task w))) = Some r'"
                 "Status r' = StatusCompleted"
  shows "fst (ProcessImage cfg env task w) = None \<and> i = ImageID task"
proof (cases rule: ProcessImage_cases[of env task w cfg])
  case (GetFailed e)
  with before after show ?thesis by simp
next
  case (StartFailed img0 e)
  with before after show ?thesis by simp
next
  case (Failed img0 reg1 msg e fs)
  let ?img = "img0\<lparr>Status := StatusProcessing, UpdatedAt := now_start env\<rparr>"
  from after(1) Failed(4)
  have "row_of i (snd (Update (update_end_io env)
            (?img\<lparr>Status := StatusFailed, UpdatedAt := now_end env\<rparr>) reg1)) = Some r'"
    by (simp add: mark_failed_def)
  from row_of_Update_status[OF this] after(2)
  have "row_of i reg1 = Some r'" by (auto simp: status_defs)
  from row_of_Update_status[OF this[unfolded Failed(2)]] after(2) before
  show ?thesis by (auto simp: status_defs)
next
  case (EndFailed img0 reg1 e fs)
  from after(1) EndFailed(3) have "row_of i reg1 = Some r'" by simp
  from row_of_Update_status[OF this[unfolded EndFailed(2)]] after(2) before
  show ?thesis by (auto simp: status_defs)
next
  case (Completed img0 reg1 orig fs1 fs c)
  have id: "ID img0 = ImageID task" using Completed(1) by (rule row_of_ID)
  have "i = ImageID task"
  proof (rule ccontr)
    assume ne: "i \<noteq> ImageID task"
    from after(1) Completed(5) ne id
    have "row_of i reg1 = Some r'" by (simp add: row_of_Update_other)
    then have "row_of i (images w) = Some r'"
      unfolding Completed(2) using ne id by (simp add: row_of_Update_other)
    with before after(2) show False by simp
  qed
  with Completed(5) show ?thesis by simp
qed


section \<open>Upload, the producer and the consumer loop\<close>

lemma Upload_success:
  assumes "Upload marshal cfg env file header w = (Inr row, w')"
  obtains format pic fs reg wr where
    "\<not> sint (Image_MaxFileSize cfg) < sint (Size header)"
    "parseFormat (ToLower (unicode_table env) (Ext (Filename header))) = Inr format"
    "Save (Storage_BasePath cfg) (save_io env)
       (Join [''original'', new_id env @ ToLower (unicode_table env) (Ext (Filename header))]) file (files w)
       = (None, fs)"
    "decodeImageForDimensions file format = Inr pic"
    "row = \<lparr>ID = new_id env,
              OriginalPath = Join [''original'', new_id env @ ToLower (unicode_table env) (Ext (Filename header))],
              ProcessedPath = [], ThumbnailPath = [],
              Status = StatusPending, Format = format,
              OriginalWidth = Dx pic, OriginalHeight = Dy pic,
              ProcessedWidth = 0, ProcessedHeight = 0,
              CreatedAt = now env, UpdatedAt = now env\<rparr>"
    "Create (create_io env) row (images w) = (None, reg)"
    "SendTask marshal (send_io env)
       \<lparr>ImageID = ID row, ImagePath = OriginalPath row, TaskFormat = Format row,
        Width = OriginalWidth row, Height = OriginalHeight row\<rparr> (writer w) = (None, wr)"
    "w' = w\<lparr>files := fs, images := reg, writer := wr\<rparr>"
  using assms unfolding Upload_def Let_def
  by (auto split: if_splits sum.splits prod.splits option.splits)

lemma least_bound: "minIndex < i \<Longrightarrow> least cs i minIndex minBytes < i + length cs"
  by (induction cs i minIndex minBytes rule: least.induct) auto

lemma LeastBytes_index:
  assumes "0 < n"
  shows "fst (LeastBytes_Balance msg n cs) < n"
proof -
  define cs0 where "cs0 = (if length cs \<noteq> n then replicate n 0 else cs)"
  have len: "length cs0 = n" by (simp add: cs0_def)
  then obtain c rest where cs0: "cs0 = c # rest" using assms by (cases cs0) auto
  have "least rest 1 0 c < 1 + length rest" by (rule least_bound) simp
  then have "least rest 1 0 c < n" using len cs0 by simp
  then show ?thesis
    using cs0 unfolding LeastBytes_Balance_def Let_def cs0_def[symmetric] by simp
qed

lemma SendTask_success:
  assumes "SendTask marshal io task wr = (None, wr')"
  obtains data p where
    "marshal task = Inr data"
    "p < length (partitions wr)"
    "partitions wr' = (partitions wr)[p := partitions wr ! p @ [\<lparr>Key = ImageID task, Value = data\<rparr>]]"
proof -
  from assms obtain data where m: "marshal task = Inr data"
    by (auto simp: SendTask_def split: sum.splits)
  let ?msg = "\<lparr>Key = ImageID task, Value = data\<rparr>"
  from assms m have wm: "WriteMessages io ?msg wr = (None, wr')"
    by (auto simp: SendTask_def Let_def split: prod.splits option.splits)
  then have ne: "partitions wr \<noteq> []" and io: "io = Succeeds"
    by (auto simp: WriteMessages_def split: outcome.splits if_splits)
  let ?p = "fst (LeastBytes_Balance ?msg (length (partitions wr)) (counters wr))"
  have "?p < length (partitions wr)" using ne by (simp add: LeastBytes_index)
  moreover have "partitions wr' = (partitions wr)[?p := partitions wr ! ?p @ [?msg]]"
    using wm ne io by (auto simp: WriteMessages_def split: prod.splits)
  ultimately show ?thesis using m that by blast
qed


lemma ProcessImage_ignores_size:
  "ProcessImage cfg penv (task\<lparr>Width := a, Height := b\<rparr>) w = ProcessImage cfg penv task w"
  by (simp add: ProcessImage_def Let_def cong: sum.case_cong option.case_cong prod.case_cong)

lemma Start_deliveries:
  "Start unmarshal processor (map delivery msgs @ rest) (calls, s) =
   Start unmarshal processor rest
     (calls @ concat (map (expected_calls unmarshal) msgs),
      processed unmarshal processor msgs s)"
proof (induction msgs arbitrary: calls s)
  case Nil
  show ?case by (simp add: processed_def)
next
  case (Cons msg msgs)
  show ?case
  proof (cases "unmarshal (Value msg)")
    case None
    then show ?thesis
      using Cons.IH[of "calls @ [Commit msg]" s]
      by (simp add: delivery_def expected_calls_def processed_def)
  next
    case (Some task)
    then show ?thesis
      using Cons.IH[of "calls @ [Invoke task, Commit msg]" "snd (processor task s)"]
      by (simp add: delivery_def expected_calls_def processed_def Let_def)
  qed
qed

section \<open>Sample runs\<close>

lemmas run_defs =
  ProcessImage_def GetByID_def row_of_def Update_def Read_def Join_def Clean_def
  decodeImage_def codec_Decode_def Resize_def saveImage_def Save_def getExtension_def
  mark_failed_def Let_def format_defs status_defs
  cfg0_def penv0_def penv_db_lost_def save_ok_def task0_def row0_def photo_def
  w_uploaded_def w_completed_def row_completed_def w_empty_def fresh_writer_def

lemma run_completed:
  "fst (ProcessImage cfg0 penv0 task0 w_uploaded) = None"
  "map Status (images (snd (ProcessImage cfg0 penv0 task0 w_uploaded))) = [StatusCompleted]"
  by (simp_all add: run_defs)

lemma run_lost:
  "ProcessImage cfg0 penv0 task_lost w_uploaded =
     (Some (Wrap ''failed to read original image''
        (Wrap ''file not found'' (External ''no such file or directory''))),
      w_uploaded\<lparr>images := [row0\<lparr>Status := StatusFailed, UpdatedAt := 3\<rparr>]\<rparr>)"
  by (simp add: run_defs task_lost_def)

lemma upload_photo:
  "Upload sample_marshal cfg0 uenv0 photo \<lparr>Filename = ''photo.jpeg'', Size = 10\<rparr> w_empty
     = (Inr row0, w_uploaded)"
  by (simp add: Upload_def cfg0_def uenv0_def photo_def w_empty_def fresh_writer_def
     w_uploaded_def row0_def Ext_def ToLower_def lower_char_def parseFormat_def Join_def
     Clean_def Save_def decodeImageForDimensions_def codec_Decode_def Validate_def Create_def
     row_of_def SendTask_def sample_marshal_def decimal_def digits.simps WriteMessages_def
     LeastBytes_Balance_def format_defs status_defs Let_def)

lemma upload_blank:
  "Upload sample_marshal cfg0 uenv0 blank \<lparr>Filename = ''blank.gif'', Size = 10\<rparr> w_empty
     = (Inr row_blank, w_blank)"
  by (simp add: Upload_def cfg0_def uenv0_def blank_def w_empty_def fresh_writer_def
     w_blank_def row_blank_def Ext_def ToLower_def lower_char_def parseFormat_def Join_def
     Clean_def Save_def decodeImageForDimensions_def codec_Decode_def Validate_def Create_def
     row_of_def SendTask_def sample_marshal_def decimal_def digits.simps WriteMessages_def
     LeastBytes_Balance_def format_defs status_defs Let_def)

text \<open>
  The same upload under the name \<open>photo.g\<close>, U+0130, \<open>f\<close>: the rune U+0130 (the bytes
  C4 B0) is lower-cased to the letter i, and the file is taken as a GIF.
\<close>

lemma lower_dotted_I:
  "ToLower sample_table (Ext (''photo.g'' @ [CHR 0xC4, CHR 0xB0] @ ''f'')) = ''.gif''"
  by (simp add: Ext_def ToLower_def lower_char_def sample_table_def unicode_ToLower_def
     EncodeRune_def accept_def cont_def RuneError_def char_of_def bit_0)

lemma upload_dotted_I:
  "Upload sample_marshal cfg0 uenv0 blank
     \<lparr>Filename = ''photo.g'' @ [CHR 0xC4, CHR 0xB0] @ ''f'', Size = 10\<rparr> w_empty
     = (Inr row_blank, w_blank)"
proof -
  have ext: "ToLower (unicode_table uenv0)
               (Ext (Filename \<lparr>Filename = ''photo.g'' @ [CHR 0xC4, CHR 0xB0] @ ''f'',
                               Size = 10\<rparr>)) = ''.gif''"
    using lower_dotted_I by (simp add: uenv0_def)
  show ?thesis
    unfolding Upload_def ext
    by (simp add: cfg0_def uenv0_def blank_def w_empty_def fresh_writer_def
     w_blank_def row_blank_def parseFormat_def Join_def
     Clean_def Save_def decodeImageForDimensions_def codec_Decode_def Validate_def Create_def
     row_of_def SendTask_def sample_marshal_def decimal_def digits.simps WriteMessages_def
     LeastBytes_Balance_def format_defs status_defs Let_def)
qed

lemma run_blank:
  "ProcessImage cfg0 penv0 task_blank w_blank =
     (None,
      w_blank\<lparr>images := [row_blank\<lparr>ProcessedPath := ''processed/7f3a.gif'',
                                      ThumbnailPath := ''thumbnail/7f3a.gif'',
                                      Status := StatusCompleted, UpdatedAt := 3\<rparr>],
              files := [''storage/original/7f3a.gif'' \<mapsto> blank,
                        ''storage/processed/7f3a.gif'' \<mapsto> blank,
                        ''storage/thumbnail/7f3a.gif'' \<mapsto> blank]\<rparr>)"
  by (simp add: run_defs task_blank_def w_blank_def row_blank_def blank_def)

section \<open>The claims\<close>




text \<open>
  C2, as amended. Every error of \<open>ProcessImage\<close> is one of seven. On four of them
  (the blob cannot be read, it cannot be decoded, the processed image or the
  thumbnail cannot be saved) the function has issued an update with status \<open>failed\<close>
  before it returns, and the task's row holds \<open>failed\<close> when that update goes
  through; the update's own error is dropped, and the row stays \<open>processing\<close> when
  it fails. On the other three no \<open>failed\<close> is written: when the row cannot be
  loaded and when the first update fails nothing has changed, and when the last
  update fails the row stays \<open>processing\<close>.
\<close>

theorem failed_status_on_processing_failures:
  assumes "ProcessImage cfg env task w = (Some err, w')"
  shows "(\<exists>cause. err = Wrap ''failed to get image'' cause \<and> w' = w)
       \<or> (\<exists>cause. err = Wrap ''failed to update status'' cause \<and> w' = w)
       \<or> (\<exists>cause row. err = Wrap ''failed to update image record'' cause
             \<and> row_of (ImageID task) (images w') = Some row \<and> Status row = StatusProcessing)
       \<or> (\<exists>msg cause row.
             msg \<in> {''failed to read original image'', ''failed to decode image'',
                    ''failed to save processed image'', ''failed to save thumbnail''}
             \<and> err = Wrap msg cause
             \<and> row_of (ImageID task) (images w') = Some row
             \<and> Status row = (if update_end_io env = Succeeds then StatusFailed
                              else StatusProcessing))"
    (is "?A \<or> ?B \<or> ?C \<or> ?D")
proof (cases rule: ProcessImage_cases[of env task w cfg])
  case (GetFailed e)
  from assms GetFailed(2) have "err = Wrap ''failed to get image'' e" "w' = w"
    by simp_all
  then have ?A by blast
  then show ?thesis by (rule disjI1)
next
  case (StartFailed img0 e)
  from assms StartFailed(2) have "err = Wrap ''failed to update status'' e" "w' = w"
    by simp_all
  then have ?B by blast
  then show ?thesis by (intro disjI2 disjI1)
next
  case (Failed img0 reg1 msg e fs)
  let ?img = "img0\<lparr>Status := StatusProcessing, UpdatedAt := now_start env\<rparr>"
  have id: "ID img0 = ImageID task" using Failed(1) by (rule row_of_ID)
  obtain row1 where row1: "row_of (ImageID task) reg1 = Some row1" "Status row1 = StatusProcessing"
    using row_of_Update[OF Failed(1), of ?img] id Failed(2) by auto
  have w': "w' = mark_failed env ?img (w\<lparr>images := reg1, files := fs\<rparr>)" and err: "err = Wrap msg e"
    using assms Failed(4) by simp_all
  have "\<exists>row. row_of (ImageID task) (images w') = Some row
           \<and> Status row = (if update_end_io env = Succeeds then StatusFailed else StatusProcessing)"
  proof (cases "update_end_io env")
    case Succeeds
    then show ?thesis
      using row_of_Update[OF row1(1), of "?img\<lparr>Status := StatusFailed, UpdatedAt := now_end env\<rparr>"] id
      by (auto simp: w' mark_failed_def)
  next
    case (Fails x)
    then show ?thesis using row1 by (simp add: w' mark_failed_def)
  qed
  then obtain row where "row_of (ImageID task) (images w') = Some row"
     "Status row = (if update_end_io env = Succeeds then StatusFailed else StatusProcessing)"
    by blast
  with err Failed(3) have ?D by (intro exI[of _ msg] exI[of _ e] exI[of _ row] conjI)
  then show ?thesis by (intro disjI2)
next
  case (EndFailed img0 reg1 e fs)
  let ?img = "img0\<lparr>Status := StatusProcessing, UpdatedAt := now_start env\<rparr>"
  have id: "ID img0 = ImageID task" using EndFailed(1) by (rule row_of_ID)
  obtain row1 where row1: "row_of (ImageID task) reg1 = Some row1" "Status row1 = StatusProcessing"
    using row_of_Update[OF EndFailed(1), of ?img] id EndFailed(2) by auto
  from assms EndFailed(3) have "err = Wrap ''failed to update image record'' e"
      "images w' = reg1"
    by auto
  with row1 have ?C by (intro exI[of _ e] exI[of _ row1] conjI) simp_all
  then show ?thesis by (intro disjI2 disjI1)
next
  case (Completed img0 reg1 orig fs1 fs c)
  with assms have False by simp
  then show ?thesis ..
qed

theorem failed_status_on_processing_failures_witness:
  "fst (ProcessImage cfg0 penv0 task_lost w_uploaded) =
     Some (Wrap ''failed to read original image''
        (Wrap ''file not found'' (External ''no such file or directory'')))
   \<and> update_end_io penv0 = Succeeds
   \<and> (\<exists>row. row_of (ImageID task_lost)
                (images (snd (ProcessImage cfg0 penv0 task_lost w_uploaded))) = Some row
          \<and> Status row = StatusFailed)"
  using failed_status_on_processing_failures[OF run_lost] run_lost
  by (simp add: penv0_def)

text \<open>
  C2 as stated fails. The last registry update fails: \<open>ProcessImage\<close> returns the
  error, and the row is left \<open>processing\<close>, not \<open>failed\<close>.
\<close>

theorem error_returned_row_left_processing:
  "fst (ProcessImage cfg0 penv_db_lost task0 w_uploaded) =
     Some (Wrap ''failed to update image record''
            (Wrap ''failed to update image'' (External ''connection lost'')))
   \<and> map Status (images (snd (ProcessImage cfg0 penv_db_lost task0 w_uploaded)))
       = [StatusProcessing]"
  by (simp add: run_defs)


text \<open>
  C4 fails on the code. The message key is the task's image id, but the writer's
  balancer is LeastBytes, which does not look at the key: two tasks with the same
  image id, sent one after the other to a topic of two partitions, are appended to
  different partitions.
\<close>

theorem same_image_id_two_partitions:
  "ImageID task0 = ImageID task_lost
   \<and> map (map Key) (partitions (snd (SendTask sample_marshal Succeeds task_lost
          (snd (SendTask sample_marshal Succeeds task0 fresh_writer)))))
       = [[''7f3a''], [''7f3a'']]"
  by (simp add: SendTask_def WriteMessages_def LeastBytes_Balance_def sample_marshal_def
        fresh_writer_def task0_def task_lost_def Let_def)

text \<open>
  C5, as amended. Provided the configured processed width and height are not zero:
  whenever \<open>ProcessImage\<close> succeeds, the task's row is \<open>completed\<close>, the original has
  been read from the blob store and decoded, and the processed width and height of
  the row are the configured ones, whatever the size of the original, if the
  original has pixels (a width and a height above zero); the resize library
  returns an original without pixels as it is, and the row then holds the width
  and the height of the original. The same holds of every row that was not
  \<open>completed\<close> before a run of \<open>ProcessImage\<close> and is \<open>completed\<close> after it.
\<close>

theorem completed_has_configured_dimensions:
  assumes nz: "Image_ProcessedWidth cfg \<noteq> 0" "Image_ProcessedHeight cfg \<noteq> 0"
  shows "(fst (ProcessImage cfg env task w) = None \<longrightarrow>
            (\<exists>row c orig.
                 row_of (ImageID task) (images (snd (ProcessImage cfg env task w))) = Some row
               \<and> Status row = StatusCompleted
               \<and> files w (Join [Storage_BasePath cfg, ImagePath task]) = Some c
               \<and> decodeImage c (TaskFormat task) = Inr orig
               \<and> ProcessedWidth row
                   = (if has_pixels orig then Image_ProcessedWidth cfg else Dx orig)
               \<and> ProcessedHeight row
                   = (if has_pixels orig then Image_ProcessedHeight cfg else Dy orig)))
       \<and> (row_of i (images w) = Some r \<and> Status r \<noteq> StatusCompleted
            \<and> row_of i (images (snd (ProcessImage cfg env task w))) = Some r'
            \<and> Status r' = StatusCompleted \<longrightarrow>
            (\<exists>c orig.
                 files w (Join [Storage_BasePath cfg, ImagePath task]) = Some c
               \<and> decodeImage c (TaskFormat task) = Inr orig
               \<and> ProcessedWidth r'
                   = (if has_pixels orig then Image_ProcessedWidth cfg else Dx orig)
               \<and> ProcessedHeight r'
                   = (if has_pixels orig then Image_ProcessedHeight cfg else Dy orig)))"
proof -
  have ok: "\<exists>row c orig.
                 row_of (ImageID task) (images (snd (ProcessImage cfg env task w))) = Some row
               \<and> Status row = StatusCompleted
               \<and> files w (Join [Storage_BasePath cfg, ImagePath task]) = Some c
               \<and> decodeImage c (TaskFormat task) = Inr orig
               \<and> ProcessedWidth row
                   = (if has_pixels orig then Image_ProcessedWidth cfg else Dx orig)
               \<and> ProcessedHeight row
                   = (if has_pixels orig then Image_ProcessedHeight cfg else Dy orig)"
    if success: "fst (ProcessImage cfg env task w) = None"
  proof (cases rule: ProcessImage_cases[of env task w cfg])
    case (GetFailed e)
    with success show ?thesis by simp
  next
    case (StartFailed img0 e)
    with success show ?thesis by simp
  next
    case (Failed img0 reg1 msg e fs)
    with success show ?thesis by simp
  next
    case (EndFailed img0 reg1 e fs)
    with success show ?thesis by simp
  next
    case (Completed img0 reg1 orig fs1 fs c)
    let ?img = "img0\<lparr>Status := StatusProcessing, UpdatedAt := now_start env\<rparr>"
    let ?p = "Resize (float_sides env) (Image_ProcessedWidth cfg) (Image_ProcessedHeight cfg) orig"
    let ?img' = "img0\<lparr>Status := StatusProcessing, UpdatedAt := now_start env,
                     ProcessedPath := Join [''processed'',
                                            ImageID task @ getExtension (TaskFormat task)],
                     ThumbnailPath := Join [''thumbnail'',
                                            ImageID task @ getExtension (TaskFormat task)],
                     Status := StatusCompleted,
                     ProcessedWidth := Dx ?p, ProcessedHeight := Dy ?p,
                     UpdatedAt := now_end env\<rparr>"
    have i0: "ID img0 = ImageID task" using Completed(1) by (rule row_of_ID)
    obtain row1 where row1: "row_of (ImageID task) reg1 = Some row1"
      using row_of_Update[OF Completed(1), of ?img] i0 Completed(2) by auto
    have after: "images (snd (ProcessImage cfg env task w)) = snd (Update Succeeds ?img' reg1)"
      using Completed(5) by simp
    have "ID ?img' = ImageID task" using i0 by simp
    from row_of_Update[OF row1 this]
    obtain row where row:
        "row_of (ImageID task) (images (snd (ProcessImage cfg env task w))) = Some row"
        "Status row = StatusCompleted"
        "ProcessedWidth row = Dx ?p" "ProcessedHeight row = Dy ?p"
      unfolding after by auto
    have "files w (Join [Storage_BasePath cfg, ImagePath task]) = Some c"
      using Completed(6) by (rule Read_found)
    with row Completed(7) show ?thesis
      by (auto simp: Resize_nonzero[OF nz])
  qed
  have "\<exists>c orig.
                 files w (Join [Storage_BasePath cfg, ImagePath task]) = Some c
               \<and> decodeImage c (TaskFormat task) = Inr orig
               \<and> ProcessedWidth r'
                   = (if has_pixels orig then Image_ProcessedWidth cfg else Dx orig)
               \<and> ProcessedHeight r'
                   = (if has_pixels orig then Image_ProcessedHeight cfg else Dy orig)"
    if "row_of i (images w) = Some r" "Status r \<noteq> StatusCompleted"
       "row_of i (images (snd (ProcessImage cfg env task w))) = Some r'"
       "Status r' = StatusCompleted"
  proof -
    from reaches_completed[OF that]
    have s: "fst (ProcessImage cfg env task w) = None" and i: "i = ImageID task" by simp_all
    from ok[OF s] that(3) show ?thesis unfolding i by auto
  qed
  with ok show ?thesis by blast
qed

theorem completed_has_configured_dimensions_witness:
  "Image_ProcessedWidth cfg0 \<noteq> 0 \<and> Image_ProcessedHeight cfg0 \<noteq> 0
   \<and> fst (ProcessImage cfg0 penv0 task0 w_uploaded) = None
   \<and> row_of ''7f3a'' (images w_uploaded) = Some row0
   \<and> Status row0 \<noteq> StatusCompleted
   \<and> OriginalWidth row0 = 1920 \<and> OriginalHeight row0 = 1080
   \<and> (\<exists>row. row_of ''7f3a'' (images (snd (ProcessImage cfg0 penv0 task0 w_uploaded))) = Some row
            \<and> Status row = StatusCompleted
            \<and> ProcessedWidth row = 800 \<and> ProcessedHeight row = 800)"
proof -
  have nz: "Image_ProcessedWidth cfg0 \<noteq> 0" "Image_ProcessedHeight cfg0 \<noteq> 0"
    by (simp_all add: cfg0_def)
  have before: "row_of ''7f3a'' (images w_uploaded) = Some row0"
      "Status row0 \<noteq> StatusCompleted" "OriginalWidth row0 = 1920" "OriginalHeight row0 = 1080"
    by (simp_all add: w_uploaded_def row_of_def row0_def status_defs)
  have blob: "files w_uploaded (Join [Storage_BasePath cfg0, ImagePath task0]) = Some photo"
    by (simp add: w_uploaded_def cfg0_def task0_def Join_def Clean_def)
  have dec: "decodeImage photo (TaskFormat task0) = Inr \<lparr>Dx = 1920, Dy = 1080\<rparr>"
    by (simp add: decodeImage_def codec_Decode_def photo_def task0_def)
  have px: "has_pixels \<lparr>Dx = 1920, Dy = 1080\<rparr>"
    by (simp add: has_pixels_def)
  from completed_has_configured_dimensions[OF nz, of penv0 task0 w_uploaded] run_completed(1)
  obtain row c and orig :: picture where row:
      "row_of (ImageID task0) (images (snd (ProcessImage cfg0 penv0 task0 w_uploaded))) = Some row"
      "Status row = StatusCompleted"
      "files w_uploaded (Join [Storage_BasePath cfg0, ImagePath task0]) = Some c"
      "decodeImage c (TaskFormat task0) = Inr orig"
      "ProcessedWidth row = (if has_pixels orig then Image_ProcessedWidth cfg0 else Dx orig)"
      "ProcessedHeight row = (if has_pixels orig then Image_ProcessedHeight cfg0 else Dy orig)"
    by blast
  from row(3) blob have "c = photo" by simp
  with row(4) dec have "orig = \<lparr>Dx = 1920, Dy = 1080\<rparr>" by simp
  with row px
  have "row_of ''7f3a'' (images (snd (ProcessImage cfg0 penv0 task0 w_uploaded))) = Some row
      \<and> Status row = StatusCompleted \<and> ProcessedWidth row = 800 \<and> ProcessedHeight row = 800"
    by (simp add: task0_def cfg0_def)
  with nz before run_completed(1) show ?thesis by blast
qed

text \<open>
  C5 as stated fails. A GIF without pixels is uploaded and its task processed with
  the configured target 800 x 800: the row reaches \<open>completed\<close> with processed width
  and height 0.
\<close>

theorem blank_gif_completes_at_its_own_size:
  "Upload sample_marshal cfg0 uenv0 blank \<lparr>Filename = ''blank.gif'', Size = 10\<rparr> w_empty
     = (Inr row_blank, w_blank)
   \<and> Image_ProcessedWidth cfg0 = 800 \<and> Image_ProcessedHeight cfg0 = 800
   \<and> map Status (images w_blank) = [StatusPending]
   \<and> fst (ProcessImage cfg0 penv0 task_blank w_blank) = None
   \<and> map Status (images (snd (ProcessImage cfg0 penv0 task_blank w_blank))) = [StatusCompleted]
   \<and> map ProcessedWidth (images (snd (ProcessImage cfg0 penv0 task_blank w_blank))) = [0]
   \<and> map ProcessedHeight (images (snd (ProcessImage cfg0 penv0 task_blank w_blank))) = [0]"
proof -
  have "Image_ProcessedWidth cfg0 = 800 \<and> Image_ProcessedHeight cfg0 = 800"
    by (simp add: cfg0_def)
  moreover have "map Status (images w_blank) = [StatusPending]"
    by (simp add: w_blank_def row_blank_def)
  moreover have "fst (ProcessImage cfg0 penv0 task_blank w_blank) = None"
      "map Status (images (snd (ProcessImage cfg0 penv0 task_blank w_blank))) = [StatusCompleted]"
      "map ProcessedWidth (images (snd (ProcessImage cfg0 penv0 task_blank w_blank))) = [0]"
      "map ProcessedHeight (images (snd (ProcessImage cfg0 penv0 task_blank w_blank))) = [0]"
    by (simp_all add: run_blank row_blank_def)
  ultimately show ?thesis using upload_blank by simp
qed

text \<open>
  C6, as amended. After a successful upload one message has been appended to one
  partition of the topic: its key is the image id and its value is the encoding of
  the task made of the image's id, original path, format, original width and
  original height, the size measured by decoding the uploaded file. The width and
  height of a task are not a resize target: \<open>ProcessImage\<close> does not read them.
\<close>

theorem enqueued_task_is_projection_of_image:
  assumes "Upload marshal cfg uenv file header w = (Inr row, w')"
  shows "\<exists>data p.
           marshal \<lparr>ImageID = ID row, ImagePath = OriginalPath row, TaskFormat = Format row,
                    Width = OriginalWidth row, Height = OriginalHeight row\<rparr> = Inr data
         \<and> p < length (partitions (writer w))
         \<and> partitions (writer w') =
             (partitions (writer w))
               [p := partitions (writer w) ! p @ [\<lparr>Key = ID row, Value = data\<rparr>]]
         \<and> decodeImageForDimensions file (Format row)
             = Inr \<lparr>Dx = OriginalWidth row, Dy = OriginalHeight row\<rparr>
         \<and> ProcessImage cfg penv (task\<lparr>Width := a, Height := b\<rparr>) w2
             = ProcessImage cfg penv task w2"
proof -
  from assms obtain format pic fs reg wr where
      dec: "decodeImageForDimensions file format = Inr pic"
    and row: "row = \<lparr>ID = new_id uenv,
              OriginalPath = Join [''original'', new_id uenv @ ToLower (unicode_table uenv) (Ext (Filename header))],
              ProcessedPath = [], ThumbnailPath = [],
              Status = StatusPending, Format = format,
              OriginalWidth = Dx pic, OriginalHeight = Dy pic,
              ProcessedWidth = 0, ProcessedHeight = 0,
              CreatedAt = now uenv, UpdatedAt = now uenv\<rparr>"
    and send: "SendTask marshal (send_io uenv)
       \<lparr>ImageID = ID row, ImagePath = OriginalPath row, TaskFormat = Format row,
        Width = OriginalWidth row, Height = OriginalHeight row\<rparr> (writer w) = (None, wr)"
    and w': "w' = w\<lparr>files := fs, images := reg, writer := wr\<rparr>"
    by (rule Upload_success)
  from send obtain data p where
      "marshal \<lparr>ImageID = ID row, ImagePath = OriginalPath row, TaskFormat = Format row,
                Width = OriginalWidth row, Height = OriginalHeight row\<rparr> = Inr data"
      "p < length (partitions (writer w))"
      "partitions wr = (partitions (writer w))
               [p := partitions (writer w) ! p @ [\<lparr>Key = ID row, Value = data\<rparr>]]"
    by (rule SendTask_success) simp
  moreover have "decodeImageForDimensions file (Format row)
             = Inr \<lparr>Dx = OriginalWidth row, Dy = OriginalHeight row\<rparr>"
    using dec by (simp add: row)
  ultimately show ?thesis using w' ProcessImage_ignores_size by auto
qed

theorem enqueued_task_is_projection_of_image_witness:
  "Upload sample_marshal cfg0 uenv0 photo \<lparr>Filename = ''photo.jpeg'', Size = 10\<rparr> w_empty
     = (Inr row0, w_uploaded)
   \<and> (\<exists>data p.
         sample_marshal \<lparr>ImageID = ''7f3a'', ImagePath = ''original/7f3a.jpeg'',
            TaskFormat = ''jpeg'', Width = 1920, Height = 1080\<rparr> = Inr data
       \<and> p < length (partitions (writer w_empty))
       \<and> partitions (writer w_uploaded) =
             (partitions (writer w_empty))
               [p := partitions (writer w_empty) ! p @ [\<lparr>Key = ''7f3a'', Value = data\<rparr>]])"
  using enqueued_task_is_projection_of_image[OF upload_photo] upload_photo
  by (simp add: row0_def format_defs) blast

text \<open>
  C6 as stated fails. For a 1920 x 1080 upload and a configured target of 800 x 800
  the message enqueued is the encoding of the task with width 1920 and height 1080,
  not of the task with the target size.
\<close>

theorem enqueued_task_carries_original_size:
  "partitions (writer (snd (Upload sample_marshal cfg0 uenv0 photo
       \<lparr>Filename = ''photo.jpeg'', Size = 10\<rparr> w_empty)))
     = [[\<lparr>Key = ''7f3a'', Value =
          ''{image_id:7f3a,image_path:original/7f3a.jpeg,format:jpeg,width:1920,height:1080}''\<rparr>],
        []]
   \<and> sample_marshal (task0\<lparr>Width := Image_ProcessedWidth cfg0,
                              Height := Image_ProcessedHeight cfg0\<rparr>)
     = Inr ''{image_id:7f3a,image_path:original/7f3a.jpeg,format:jpeg,width:800,height:800}''"
proof
  show "partitions (writer (snd (Upload sample_marshal cfg0 uenv0 photo
       \<lparr>Filename = ''photo.jpeg'', Size = 10\<rparr> w_empty)))
     = [[\<lparr>Key = ''7f3a'', Value =
          ''{image_id:7f3a,image_path:original/7f3a.jpeg,format:jpeg,width:1920,height:1080}''\<rparr>],
        []]"
    by (simp add: upload_photo w_uploaded_def)
  show "sample_marshal (task0\<lparr>Width := Image_ProcessedWidth cfg0,
                              Height := Image_ProcessedHeight cfg0\<rparr>)
     = Inr ''{image_id:7f3a,image_path:original/7f3a.jpeg,format:jpeg,width:800,height:800}''"
    by (simp add: sample_marshal_def task0_def cfg0_def decimal_def digits.simps format_defs)
qed

text \<open>
  C7, as amended. An upload whose file name extension, lower-cased as
  \<open>strings.ToLower\<close> lower-cases it (with the case tables of package unicode, whatever
  they are: an extension spelt with U+0130 for the letter i counts as spelt with
  i), is none of \<open>.jpg\<close>, \<open>.jpeg\<close>, \<open>.png\<close>, \<open>.gif\<close> fails and leaves the registry,
  the blob store and the queue as they were. The error is the unsupported-format
  error when the declared size is within the configured maximum; the size is
  checked first, so a larger upload fails with the size error instead.
\<close>

theorem unsupported_extension_rejected:
  assumes "ToLower (unicode_table env) (Ext (Filename header))
             \<notin> {''.jpg'', ''.jpeg'', ''.png'', ''.gif''}"
  shows "Upload marshal cfg env file header w =
           (if sint (Image_MaxFileSize cfg) < sint (Size header)
            then Inl (Errorf ''file size exceeds maximum allowed size'')
            else Inl (Wrap ''unsupported format'' ErrInvalidFormat), w)"
  using assms by (simp add: Upload_def parseFormat_def)

theorem unsupported_extension_rejected_witness:
  "ToLower (unicode_table uenv0) (Ext ''photo.bmp'') \<notin> {''.jpg'', ''.jpeg'', ''.png'', ''.gif''}
   \<and> Upload sample_marshal cfg0 uenv0 photo \<lparr>Filename = ''photo.bmp'', Size = 10\<rparr> w_empty
       = (Inl (Wrap ''unsupported format'' ErrInvalidFormat), w_empty)"
proof -
  have h: "ToLower (unicode_table uenv0) (Ext (Filename \<lparr>Filename = ''photo.bmp'', Size = 10\<rparr>))
             \<notin> {''.jpg'', ''.jpeg'', ''.png'', ''.gif''}"
    by (simp add: Ext_def ToLower_def lower_char_def)
  from unsupported_extension_rejected[OF h, of sample_marshal cfg0 photo w_empty] h
  show ?thesis by (simp add: cfg0_def)
qed

text \<open>
  C7 as stated fails. A \<open>.bmp\<close> upload that declares one byte more than the maximum
  fails with the size error, not with the unsupported-format error.
\<close>

theorem oversized_bmp_is_size_error:
  "ToLower (unicode_table uenv0) (Ext ''photo.bmp'') \<notin> {''.jpg'', ''.jpeg'', ''.png'', ''.gif''}
   \<and> Upload sample_marshal cfg0 uenv0 photo \<lparr>Filename = ''photo.bmp'', Size = 10485761\<rparr> w_empty
       = (Inl (Errorf ''file size exceeds maximum allowed size''), w_empty)"
  by (simp add: Upload_def cfg0_def Ext_def ToLower_def lower_char_def)

text \<open>
  C8, as amended. For an upload that succeeds with an identifier without a
  separator, the original blob is stored under \<open>original/\<close> at the image id followed
  by the extension of the uploaded file name in lower case. When \<open>ProcessImage\<close>
  succeeds on the image's task, the processed and the thumbnail blob are stored
  under \<open>processed/\<close> and \<open>thumbnail/\<close> at the image id followed by the extension
  that \<open>getExtension\<close> gives for the image's format. The three paths share the id;
  the extension of the two derived blobs is that of the original except for an
  upload named \<open>.jpeg\<close>, whose derived blobs end in \<open>.jpg\<close>.
\<close>

theorem blob_paths_share_id:
  assumes up: "Upload marshal cfg uenv file header w = (Inr row, w1)"
      and id: "CHR ''/'' \<notin> set (new_id uenv)"
      and pr: "ProcessImage cfg penv
                 \<lparr>ImageID = ID row, ImagePath = OriginalPath row, TaskFormat = Format row,
                  Width = OriginalWidth row, Height = OriginalHeight row\<rparr> w2 = (None, w3)"
  shows "ID row = new_id uenv
       \<and> OriginalPath row = ''original/'' @ ID row @ ToLower (unicode_table uenv) (Ext (Filename header))
       \<and> files w1 (Join [Storage_BasePath cfg, OriginalPath row]) = Some file
       \<and> (\<exists>final. row_of (ID row) (images w3) = Some final
             \<and> ProcessedPath final = ''processed/'' @ ID row @ getExtension (Format row)
             \<and> ThumbnailPath final = ''thumbnail/'' @ ID row @ getExtension (Format row)
             \<and> files w3 (Join [Storage_BasePath cfg, ProcessedPath final]) \<noteq> None
             \<and> files w3 (Join [Storage_BasePath cfg, ThumbnailPath final]) \<noteq> None)
       \<and> getExtension (Format row) =
           (if ToLower (unicode_table uenv) (Ext (Filename header)) = ''.jpeg'' then ''.jpg''
            else ToLower (unicode_table uenv) (Ext (Filename header)))"
proof -
  let ?ext = "ToLower (unicode_table uenv) (Ext (Filename header))"
  let ?task = "\<lparr>ImageID = ID row, ImagePath = OriginalPath row, TaskFormat = Format row,
                Width = OriginalWidth row, Height = OriginalHeight row\<rparr>"
  from up obtain format and pic :: picture and fs0 reg0 wr0 where
      pf: "parseFormat ?ext = Inr format"
    and sv: "Save (Storage_BasePath cfg) (save_io uenv)
               (Join [''original'', new_id uenv @ ?ext]) file (files w) = (None, fs0)"
    and row: "row = \<lparr>ID = new_id uenv,
              OriginalPath = Join [''original'', new_id uenv @ ?ext],
              ProcessedPath = [], ThumbnailPath = [],
              Status = StatusPending, Format = format,
              OriginalWidth = Dx pic, OriginalHeight = Dy pic,
              ProcessedWidth = 0, ProcessedHeight = 0,
              CreatedAt = now uenv, UpdatedAt = now uenv\<rparr>"
    and w1: "w1 = w\<lparr>files := fs0, images := reg0, writer := wr0\<rparr>"
    by (rule Upload_success)
  have rid: "ID row = new_id uenv" and fmt: "Format row = format" by (simp_all add: row)
  from parseFormat_ext[OF pf] have ext: "?ext \<in> {''.jpg'', ''.jpeg'', ''.png'', ''.gif''}"
    and gext: "getExtension format = (if ?ext = ''.jpeg'' then ''.jpg'' else ?ext)"
    by simp_all
  have opath: "OriginalPath row = ''original/'' @ ID row @ ?ext"
    using Join_id_ext[OF id ext, of "''original''"] by (simp add: row)
  have ofile: "files w1 (Join [Storage_BasePath cfg, OriginalPath row]) = Some file"
    using Save_stored[OF sv] by (simp add: w1 row)
  have gx: "getExtension format \<in> {''.jpg'', ''.jpeg'', ''.png'', ''.gif''}"
    using getExtension_cases[of format] by auto
  have ppath: "Join [''processed'', ID row @ getExtension format]
                 = ''processed/'' @ ID row @ getExtension format"
    using Join_id_ext[OF id gx, of "''processed''"] by (simp add: rid)
  have tpath: "Join [''thumbnail'', ID row @ getExtension format]
                 = ''thumbnail/'' @ ID row @ getExtension format"
    using Join_id_ext[OF id gx, of "''thumbnail''"] by (simp add: rid)
  have "\<exists>final. row_of (ID row) (images w3) = Some final
             \<and> ProcessedPath final = ''processed/'' @ ID row @ getExtension (Format row)
             \<and> ThumbnailPath final = ''thumbnail/'' @ ID row @ getExtension (Format row)
             \<and> files w3 (Join [Storage_BasePath cfg, ProcessedPath final]) \<noteq> None
             \<and> files w3 (Join [Storage_BasePath cfg, ThumbnailPath final]) \<noteq> None"
  proof (cases rule: ProcessImage_cases[of penv ?task w2 cfg])
    case (GetFailed e)
    with pr show ?thesis by simp
  next
    case (StartFailed img0 e)
    with pr show ?thesis by simp
  next
    case (Failed img0 reg1 msg e fs)
    with pr show ?thesis by simp
  next
    case (EndFailed img0 reg1 e fs)
    with pr show ?thesis by simp
  next
    case (Completed img0 reg1 orig fs1 fs c)
    let ?img = "img0\<lparr>Status := StatusProcessing, UpdatedAt := now_start penv\<rparr>"
    have i0: "ID img0 = ID row" using row_of_ID[OF Completed(1)] by simp
    obtain row1 where row1: "row_of (ID row) reg1 = Some row1"
      using row_of_Update[OF Completed(1), of ?img] i0 Completed(2) by auto
    let ?img' = "img0\<lparr>Status := StatusProcessing, UpdatedAt := now_start penv,
                     ProcessedPath := Join [''processed'', ID row @ getExtension format],
                     ThumbnailPath := Join [''thumbnail'', ID row @ getExtension format],
                     Status := StatusCompleted,
                     ProcessedWidth := Dx (Resize (float_sides penv) (Image_ProcessedWidth cfg) (Image_ProcessedHeight cfg) orig),
                     ProcessedHeight := Dy (Resize (float_sides penv) (Image_ProcessedWidth cfg) (Image_ProcessedHeight cfg) orig),
                     UpdatedAt := now_end penv\<rparr>"
    from pr Completed(5) have w3: "images w3 = snd (Update Succeeds ?img' reg1)"
      and f3: "files w3 = fs"
      by (auto simp: fmt)
    have "ID ?img' = ID row" using i0 by simp
    from row_of_Update[OF row1 this]
    obtain final where final: "row_of (ID row) (images w3) = Some final"
        "ProcessedPath final = Join [''processed'', ID row @ getExtension format]"
        "ThumbnailPath final = Join [''thumbnail'', ID row @ getExtension format]"
      unfolding w3 by auto
    have fs1: "fs1 = (files w2)(Join [Storage_BasePath cfg,
                   Join [''processed'', ID row @ getExtension format]] \<mapsto>
                 Encoded format (Resize (float_sides penv) (Image_ProcessedWidth cfg) (Image_ProcessedHeight cfg) orig))"
      using saveImage_stored[OF Completed(3)] by (simp add: fmt)
    have fs: "fs = fs1(Join [Storage_BasePath cfg,
                   Join [''thumbnail'', ID row @ getExtension format]] \<mapsto>
                 Encoded format (Resize (float_sides penv) (Image_ThumbnailWidth cfg) (Image_ThumbnailHeight cfg) orig))"
      using saveImage_stored[OF Completed(4)] by (simp add: fmt)
    have "files w3 (Join [Storage_BasePath cfg, ProcessedPath final]) \<noteq> None"
         "files w3 (Join [Storage_BasePath cfg, ThumbnailPath final]) \<noteq> None"
      by (simp_all add: f3 fs fs1 final)
    with final ppath tpath show ?thesis by (simp add: fmt)
  qed
  with rid opath ofile gext fmt show ?thesis by simp
qed

theorem blob_paths_share_id_witness:
  "Upload sample_marshal cfg0 uenv0 photo \<lparr>Filename = ''photo.jpeg'', Size = 10\<rparr> w_empty
     = (Inr row0, w_uploaded)
   \<and> CHR ''/'' \<notin> set (new_id uenv0)
   \<and> fst (ProcessImage cfg0 penv0 task0 w_uploaded) = None
   \<and> OriginalPath row0 = ''original/7f3a.jpeg''
   \<and> (\<exists>final. row_of ''7f3a'' (images (snd (ProcessImage cfg0 penv0 task0 w_uploaded)))
                 = Some final
             \<and> ProcessedPath final = ''processed/7f3a.jpg''
             \<and> ThumbnailPath final = ''thumbnail/7f3a.jpg'')"
proof -
  have id: "CHR ''/'' \<notin> set (new_id uenv0)" by (simp add: uenv0_def)
  have task: "\<lparr>ImageID = ID row0, ImagePath = OriginalPath row0, TaskFormat = Format row0,
               Width = OriginalWidth row0, Height = OriginalHeight row0\<rparr> = task0"
    by (simp add: row0_def task0_def)
  have pr: "ProcessImage cfg0 penv0
              \<lparr>ImageID = ID row0, ImagePath = OriginalPath row0, TaskFormat = Format row0,
               Width = OriginalWidth row0, Height = OriginalHeight row0\<rparr> w_uploaded
            = (None, snd (ProcessImage cfg0 penv0 task0 w_uploaded))"
    unfolding task using run_completed(1) by (simp add: prod_eq_iff)
  have opath: "OriginalPath row0 = ''original/7f3a.jpeg''" and rid: "ID row0 = ''7f3a''"
    and fext: "getExtension (Format row0) = ''.jpg''"
    by (simp_all add: row0_def getExtension_def format_defs)
  from blob_paths_share_id[OF upload_photo id pr]
  obtain final where
      "row_of ''7f3a'' (images (snd (ProcessImage cfg0 penv0 task0 w_uploaded))) = Some final"
      "ProcessedPath final = ''processed/7f3a.jpg''"
      "ThumbnailPath final = ''thumbnail/7f3a.jpg''"
    unfolding rid fext by auto
  with upload_photo id run_completed(1) opath show ?thesis by blast
qed

text \<open>
  C8 as stated fails. A file uploaded as \<open>photo.jpeg\<close> is stored as
  \<open>original/7f3a.jpeg\<close>, and the worker stores its processed image and thumbnail
  with the extension \<open>.jpg\<close>.
\<close>

theorem jpeg_upload_gets_jpg_blobs:
  "Upload sample_marshal cfg0 uenv0 photo \<lparr>Filename = ''photo.jpeg'', Size = 10\<rparr> w_empty
     = (Inr row0, w_uploaded)
   \<and> map OriginalPath (images (snd (ProcessImage cfg0 penv0 task0 w_uploaded)))
       = [''original/7f3a.jpeg'']
   \<and> map ProcessedPath (images (snd (ProcessImage cfg0 penv0 task0 w_uploaded)))
       = [''processed/7f3a.jpg'']
   \<and> map ThumbnailPath (images (snd (ProcessImage cfg0 penv0 task0 w_uploaded)))
       = [''thumbnail/7f3a.jpg'']"
  using upload_photo by (simp add: run_defs)

text \<open>
  C9. The columns set at ingestion (id, original_path, format, original_width,
  original_height, created_at) are never changed once a row exists. The registry
  \<open>Update\<close> leaves these columns of every row of the table as they were, whatever
  image it is given and whether it succeeds or fails; so does \<open>ProcessImage\<close>, which
  writes to the registry only through \<open>Update\<close>; and \<open>Upload\<close> keeps the rows that
  exist and can only add rows after them.
\<close>

theorem ingestion_fields_never_mutated:
  "map ingestion_fields (snd (Update io img reg)) = map ingestion_fields reg
   \<and> map ingestion_fields (images (snd (ProcessImage cfg penv task w)))
       = map ingestion_fields (images w)
   \<and> (\<exists>new. images (snd (Upload marshal cfg uenv file header w)) = images w @ new)"
  using Update_ingestion ProcessImage_ingestion Upload_rows by blast

text \<open>
  C10. When \<open>FetchMessage\<close> returns an error, the loop returns that error, wrapped,
  at once: after any run of delivered messages the calls made are those for the
  messages before, the processor's state is the one they left, and whatever would
  follow is not reached. No call of the processor and no commit is made for the
  failed fetch, and it is not retried.
\<close>

theorem fetch_error_stops_loop:
  "Start unmarshal processor
     (map delivery msgs @ \<lparr>ctx_done = False, fetched = Inl e, commit_io = io\<rparr> # rest)
     (calls, s) =
   (Some (Wrap ''failed to fetch message'' (External e)),
    calls @ concat (map (expected_calls unmarshal) msgs),
    processed unmarshal processor msgs s)"
  by (simp add: Start_deliveries)

end
